theory Spec2Isabelle
  imports Complex_Main "HOL-Library.AList" "HOL-Library.Sublist" "HOL-Library.Word"
begin

section \<open>JavaScript values, errors and the process\<close>

subsection \<open>Values\<close>

text \<open>
  A JavaScript string is truthy exactly when it is not empty; an optional or nullable
  value is an \<open>option\<close> (\<open>None\<close> is \<open>undefined\<close> in an application object and
  \<open>null\<close> in a database row).
\<close>

definition truthy_str :: "string \<Rightarrow> bool" where
  "truthy_str s = (s \<noteq> [])"

text \<open>\<^verbatim>\<open>xs.join(sep)\<close> on an array of strings.\<close>

fun join :: "string \<Rightarrow> string list \<Rightarrow> string" where
  "join sep [] = []"
| "join sep [x] = x"
| "join sep (x # y # ys) = x @ sep @ join sep (y # ys)"

text \<open>\<^verbatim>\<open>s.split('T')[0]\<close>: the part of \<open>s\<close> before its first \<open>T\<close>.\<close>

definition split_T_0 :: "string \<Rightarrow> string" where
  "split_T_0 s = takeWhile (\<lambda>c. c \<noteq> CHR ''T'') s"

text \<open>
  The template literal \<^verbatim>\<open>`${now}`\<close> of a non-negative integer below \<open>10^21\<close>, which
  every value of \<^verbatim>\<open>Date.now()\<close> is: its decimal digits.
\<close>

definition digit_char :: "nat \<Rightarrow> char" where
  "digit_char d = ''0123456789'' ! d"

function string_of_nat :: "nat \<Rightarrow> string" where
  "string_of_nat n =
     (if n < 10 then [digit_char n] else string_of_nat (n div 10) @ [digit_char (n mod 10)])"
  by pat_completeness auto
termination
  by (relation "measure (\<lambda>n. n)") auto

declare string_of_nat.simps [simp del]

text \<open>
  A \<^verbatim>\<open>Date\<close> object: \<^verbatim>\<open>new Date()\<close> read at the millisecond \<open>t\<close> is \<open>Date_ms t\<close>;
  \<^verbatim>\<open>new Date(s)\<close> of a timestamp string is \<open>Date_of s\<close>, kept symbolic (the service
  never inspects it).
\<close>

datatype Date = Date_ms nat | Date_of string

subsection \<open>Errors, responses and the log\<close>

text \<open>
  Modelled from the spec: the helper \<^verbatim>\<open>createError\<close> of middleware/error.middleware is
  not among the sources; by the spec it makes a domain error with an attached HTTP status,
  and \<open>createError msg status\<close> stands for the error that the call
  \<^verbatim>\<open>createError(msg, status)\<close> returns. Of what else the services throw, \<open>Rethrown e\<close> is
  \<^verbatim>\<open>throw error\<close> of the database client's own error object, \<open>TypeError\<close> is a property
  read on \<open>null\<close>, \<open>JsError msg\<close> is \<^verbatim>\<open>new Error(msg)\<close>, and \<open>SystemError c\<close> is the
  error with code \<open>c\<close> that a file system call throws. \<open>PostgrestError\<close> and
  \<open>StorageError\<close> are the error objects of the database client and of the storage
  client.
\<close>

record PostgrestError =
  message :: string
  details :: string
  hint :: string
  code :: string

record StorageError =
  s_message :: string

datatype error =
  createError string nat
| Rethrown PostgrestError
| TypeError
| JsError string
| SystemError string

fun statusCode :: "error \<Rightarrow> nat option" where
  "statusCode (createError msg status) = Some status"
| "statusCode _ = None"

text \<open>The \<^verbatim>\<open>{ data, error }\<close> object that every call of the database client resolves to.\<close>

record 'a response =
  data :: "'a option"
  error :: "PostgrestError option"

text \<open>What is written to the console and to the logger.\<close>

datatype log_entry =
  console_error string error
| console_error_storage string StorageError
| console_warn string StorageError
| logger_warn string

subsection \<open>The lazily created client (config/supabase.ts)\<close>

text \<open>
  The environment variables that the backend reads, each absent or a string, and the
  state of the process that every module shares: the module variable \<^verbatim>\<open>_supabase\<close>
  (\<open>supabase_cache\<close>) and the log. The states of the services extend it.
\<close>

datatype SupabaseClient = createClient string string

record process_env =
  SUPABASE_URL :: "string option"
  SUPABASE_ANON_KEY :: "string option"
  NO_DB :: "string option"

record process_state =
  supabase_cache :: "SupabaseClient option"
  logs :: "log_entry list"

text \<open>The two credentials when neither \<^verbatim>\<open>!supabaseUrl\<close> nor \<^verbatim>\<open>!supabaseKey\<close> holds,
  that is when both variables are set and not empty.\<close>

definition credentials :: "process_env \<Rightarrow> (string \<times> string) option" where
  "credentials env =
     (case (SUPABASE_URL env, SUPABASE_ANON_KEY env) of
        (Some supabaseUrl, Some supabaseKey) \<Rightarrow>
          (if truthy_str supabaseUrl \<and> truthy_str supabaseKey
           then Some (supabaseUrl, supabaseKey) else None)
      | _ \<Rightarrow> None)"

text \<open>\<^verbatim>\<open>getSupabase\<close>.\<close>

definition getSupabase ::
  "process_env \<Rightarrow> 'a process_state_scheme \<Rightarrow> (error + SupabaseClient) \<times> 'a process_state_scheme" where
  "getSupabase env st =
     (case supabase_cache st of
        Some c \<Rightarrow> (Inr c, st)
      | None \<Rightarrow>
          (case credentials env of
             None \<Rightarrow>
               (if NO_DB env = Some ''true'' then
                  (Inr (createClient ''https://placeholder.supabase.co'' ''placeholder-key''),
                   st\<lparr>logs := logs st @
                         [logger_warn ''Supabase credentials not found, but NO_DB=true so continuing without DB''],
                      supabase_cache :=
                        Some (createClient ''https://placeholder.supabase.co'' ''placeholder-key'')\<rparr>)
                else
                  (Inl (JsError ''SUPABASE_URL and SUPABASE_ANON_KEY are required. Set NO_DB=true to skip database.''),
                   st))
           | Some (supabaseUrl, supabaseKey) \<Rightarrow>
               (Inr (createClient supabaseUrl supabaseKey),
                st\<lparr>supabase_cache := Some (createClient supabaseUrl supabaseKey)\<rparr>)))"

text \<open>
  The export \<^verbatim>\<open>supabase\<close> is a proxy whose every property read calls
  \<^verbatim>\<open>getSupabase()\<close>: a method that uses it first obtains the client, or throws what
  \<^verbatim>\<open>getSupabase\<close> throws.
\<close>

definition with_supabase ::
  "process_env \<Rightarrow> 'a process_state_scheme
     \<Rightarrow> ('a process_state_scheme \<Rightarrow> (error + 'b) \<times> 'a process_state_scheme)
     \<Rightarrow> (error + 'b) \<times> 'a process_state_scheme" where
  "with_supabase env st k =
     (case getSupabase env st of
        (Inl err, st1) \<Rightarrow> (Inl err, st1)
      | (Inr supabase, st1) \<Rightarrow> k st1)"

section \<open>Patient service (apps/backend/src/services/patient.service.ts)\<close>

subsection \<open>Application and row types\<close>

text \<open>
  Modelled from the spec: the shared application types \<^verbatim>\<open>Patient\<close>,
  \<^verbatim>\<open>CreatePatientRequest\<close> and \<^verbatim>\<open>UpdatePatientRequest\<close> are imported from
  \<^verbatim>\<open>@shared/types\<close>, whose declaration is not among the sources. The fields are those
  the spec's data model lists (identifier, name, free-text history, visit date, an opaque
  index string, optional biopsy-confirmed flag, optional doctor name, creation and update
  timestamps) and those the service reads. Field names carry a prefix (\<open>p_\<close> for the
  application patient, \<open>r_\<close> for a row, \<open>i_\<close> for an insert, \<open>u_\<close> for an update
  payload, \<open>c_\<close> and \<open>q_\<close> for the requests), since \<open>id\<close> is a constant of HOL and
  records may not share field names.
\<close>

record Patient =
  p_id :: string
  p_name :: string
  p_history :: string
  p_date :: string
  p_index :: string
  p_biopsyConfirmed :: "bool option"
  p_doctor :: "string option"
  p_createdAt :: Date
  p_updatedAt :: Date

record CreatePatientRequest =
  c_name :: string
  c_medicalHistory :: "string list option"

record UpdatePatientRequest =
  q_id :: string
  q_name :: "string option"
  q_medicalHistory :: "string list option"

text \<open>\<^verbatim>\<open>PatientRow\<close>, \<^verbatim>\<open>PatientInsert\<close> and \<^verbatim>\<open>PatientUpdate\<close> of database.types.ts.
  In an insert an absent optional column and a \<open>null\<close> one both store \<open>NULL\<close> (the
  columns' default), so both are \<open>None\<close>. In an update payload an absent key (outer
  \<open>None\<close>) leaves the column alone, and a nullable column may be set to \<open>null\<close>
  (\<open>Some None\<close>).\<close>

record PatientRow =
  r_id :: string
  r_patient_id :: string
  r_name :: string
  r_history :: string
  r_date :: string
  r_index :: string
  r_biopsy_confirmed :: "bool option"
  r_doctor :: "string option"
  r_created_at :: string
  r_updated_at :: string

record PatientInsert =
  i_patient_id :: string
  i_name :: string
  i_history :: string
  i_date :: string
  i_index :: string
  i_biopsy_confirmed :: "bool option"
  i_doctor :: "string option"

record PatientUpdate =
  u_patient_id :: "string option"
  u_name :: "string option"
  u_history :: "string option"
  u_date :: "string option"
  u_index :: "string option"
  u_biopsy_confirmed :: "bool option option"
  u_doctor :: "string option option"

text \<open>\<^verbatim>\<open>const updatePayload: PatientUpdate = {}\<close>\<close>

definition empty_update :: PatientUpdate where
  "empty_update = \<lparr>u_patient_id = None, u_name = None, u_history = None, u_date = None,
     u_index = None, u_biopsy_confirmed = None, u_doctor = None\<rparr>"

subsection \<open>Row and application formats\<close>

text \<open>\<^verbatim>\<open>x || undefined\<close> and \<^verbatim>\<open>x || null\<close> on an optional boolean and an optional string:
  the value when it is truthy, nothing otherwise.\<close>

definition or_none_bool :: "bool option \<Rightarrow> bool option" where
  "or_none_bool b = (case b of Some True \<Rightarrow> Some True | _ \<Rightarrow> None)"

definition or_none_str :: "string option \<Rightarrow> string option" where
  "or_none_str s = (case s of Some x \<Rightarrow> (if truthy_str x then Some x else None) | None \<Rightarrow> None)"

definition fromDbFormat :: "PatientRow \<Rightarrow> Patient" where
  "fromDbFormat row =
     \<lparr>p_id = r_patient_id row,
      p_name = r_name row,
      p_history = r_history row,
      p_date = r_date row,
      p_index = r_index row,
      p_biopsyConfirmed = or_none_bool (r_biopsy_confirmed row),
      p_doctor = or_none_str (r_doctor row),
      p_createdAt = Date_of (r_created_at row),
      p_updatedAt = Date_of (r_updated_at row)\<rparr>"

definition toDbFormat :: "Patient \<Rightarrow> PatientInsert" where
  "toDbFormat patient =
     \<lparr>i_patient_id = p_id patient,
      i_name = p_name patient,
      i_history = p_history patient,
      i_date = p_date patient,
      i_index = p_index patient,
      i_biopsy_confirmed = or_none_bool (p_biopsyConfirmed patient),
      i_doctor = or_none_str (p_doctor patient)\<rparr>"

subsection \<open>The database client\<close>

text \<open>
  The managed database and its client are external to the repository. A call is modelled
  by the relational statement it stands for, run on the \<open>patients\<close> table of
  supabase_schema.sql (a list of rows; \<open>patient_id\<close> and the primary key \<open>id\<close> are
  unique; \<open>created_at\<close> and \<open>updated_at\<close> default to \<open>NOW()\<close>; the trigger
  \<open>update_patients_updated_at\<close> sets \<open>updated_at\<close> on every updated row), followed by
  \<^verbatim>\<open>.select('*').single()\<close>, which resolves to the row when the statement yields exactly
  one row, and otherwise to an error, a mutation then being rolled back. What the
  environment decides for a call is its argument \<open>db_env\<close>: a failure the client reports
  for reasons outside the table (transport, a value that does not fit its column, ...),
  in which case the table is left as it is, the primary key generated for a new row, and
  the database's clock.
\<close>

record db_env =
  fault :: "PostgrestError option"
  new_uuid :: string
  db_now :: string

definition no_rows_error :: PostgrestError where
  "no_rows_error = \<lparr>message = ''JSON object requested, multiple (or no) rows returned'',
     details = [], hint = [], code = ''PGRST116''\<rparr>"

definition unique_violation :: PostgrestError where
  "unique_violation = \<lparr>message = ''duplicate key value violates unique constraint'',
     details = [], hint = [], code = ''23505''\<rparr>"

definition failed :: "PostgrestError \<Rightarrow> 'a response" where
  "failed e = \<lparr>data = None, error = Some e\<rparr>"

definition single :: "PatientRow list \<Rightarrow> PatientRow response" where
  "single rows = (case rows of [r] \<Rightarrow> \<lparr>data = Some r, error = None\<rparr> | _ \<Rightarrow> failed no_rows_error)"

definition matching :: "string \<Rightarrow> PatientRow list \<Rightarrow> PatientRow list" where
  "matching pid t = filter (\<lambda>r. r_patient_id r = pid) t"

text \<open>\<^verbatim>\<open>.from('patients').select('*').eq('patient_id', id).single()\<close>\<close>

definition select_single :: "db_env \<Rightarrow> string \<Rightarrow> PatientRow list \<Rightarrow> PatientRow response" where
  "select_single e pid t =
     (case fault e of Some err \<Rightarrow> failed err | None \<Rightarrow> single (matching pid t))"

text \<open>\<^verbatim>\<open>.from('patients').insert(ins).select('*').single()\<close>\<close>

definition new_row :: "db_env \<Rightarrow> PatientInsert \<Rightarrow> PatientRow" where
  "new_row e ins =
     \<lparr>r_id = new_uuid e,
      r_patient_id = i_patient_id ins,
      r_name = i_name ins,
      r_history = i_history ins,
      r_date = i_date ins,
      r_index = i_index ins,
      r_biopsy_confirmed = i_biopsy_confirmed ins,
      r_doctor = i_doctor ins,
      r_created_at = db_now e,
      r_updated_at = db_now e\<rparr>"

definition insert_single ::
  "db_env \<Rightarrow> PatientInsert \<Rightarrow> PatientRow list \<Rightarrow> PatientRow response \<times> PatientRow list" where
  "insert_single e ins t =
     (case fault e of
        Some err \<Rightarrow> (failed err, t)
      | None \<Rightarrow>
          (if i_patient_id ins \<in> set (map r_patient_id t) \<or> new_uuid e \<in> set (map r_id t)
           then (failed unique_violation, t)
           else (single [new_row e ins], t @ [new_row e ins])))"

text \<open>\<^verbatim>\<open>.from('patients').update(payload).eq('patient_id', id).select('*').single()\<close>.
  A payload without any key updates nothing and yields no row.\<close>

definition apply_update :: "db_env \<Rightarrow> PatientUpdate \<Rightarrow> PatientRow \<Rightarrow> PatientRow" where
  "apply_update e u r =
     \<lparr>r_id = r_id r,
      r_patient_id = (case u_patient_id u of Some v \<Rightarrow> v | None \<Rightarrow> r_patient_id r),
      r_name = (case u_name u of Some v \<Rightarrow> v | None \<Rightarrow> r_name r),
      r_history = (case u_history u of Some v \<Rightarrow> v | None \<Rightarrow> r_history r),
      r_date = (case u_date u of Some v \<Rightarrow> v | None \<Rightarrow> r_date r),
      r_index = (case u_index u of Some v \<Rightarrow> v | None \<Rightarrow> r_index r),
      r_biopsy_confirmed = (case u_biopsy_confirmed u of Some v \<Rightarrow> v | None \<Rightarrow> r_biopsy_confirmed r),
      r_doctor = (case u_doctor u of Some v \<Rightarrow> v | None \<Rightarrow> r_doctor r),
      r_created_at = r_created_at r,
      r_updated_at = db_now e\<rparr>"

definition update_single ::
  "db_env \<Rightarrow> PatientUpdate \<Rightarrow> string \<Rightarrow> PatientRow list
     \<Rightarrow> PatientRow response \<times> PatientRow list" where
  "update_single e u pid t =
     (case fault e of
        Some err \<Rightarrow> (failed err, t)
      | None \<Rightarrow>
          (if u = empty_update then (single [], t)
           else
             (let t' = map (\<lambda>r. if r_patient_id r = pid then apply_update e u r else r) t
              in if u_patient_id u \<noteq> None \<and> \<not> distinct (map r_patient_id t')
                 then (failed unique_violation, t)
                 else (case matching pid t of
                         [r] \<Rightarrow> (single [apply_update e u r], t')
                       | rs \<Rightarrow> (single rs, t)))))"

text \<open>\<^verbatim>\<open>.from('patients').delete().eq('patient_id', id).select('*').single()\<close>\<close>

definition delete_single ::
  "db_env \<Rightarrow> string \<Rightarrow> PatientRow list \<Rightarrow> PatientRow response \<times> PatientRow list" where
  "delete_single e pid t =
     (case fault e of
        Some err \<Rightarrow> (failed err, t)
      | None \<Rightarrow>
          (case matching pid t of
             [r] \<Rightarrow> (single [r], filter (\<lambda>r. r_patient_id r \<noteq> pid) t)
           | rs \<Rightarrow> (single rs, t)))"

subsection \<open>The service\<close>

text \<open>
  The state the service acts on, beside that of the process: the module's
  \<^verbatim>\<open>memoryPatients\<close> (a JavaScript \<^verbatim>\<open>Map\<close>, which keeps insertion order: an
  association list with one entry per key) and the \<open>patients\<close> table. A method returns
  what it returns or throws, with the state it leaves.
\<close>

record state = process_state +
  memoryPatients :: "(string \<times> Patient) list"
  patients :: "PatientRow list"

text \<open>\<^verbatim>\<open>process.env.NO_DB === 'true'\<close>\<close>

definition isNoDB :: "process_env \<Rightarrow> bool" where
  "isNoDB env = (NO_DB env = Some ''true'')"

definition not_found :: error where
  "not_found = createError ''Patient not found'' 404"

text \<open>Each method in database mode, from the client's response on. The rows that
  \<^verbatim>\<open>getAllPatients\<close> receives are ordered by the database; its in-memory branch, which
  sorts the map's values by their creation time, is not needed by any property below.\<close>

definition getAllPatients_db :: "PatientRow list response \<Rightarrow> error + Patient list" where
  "getAllPatients_db resp =
     (case error resp of
        Some err \<Rightarrow> Inl (Rethrown err)
      | None \<Rightarrow> Inr (map fromDbFormat (case data resp of Some rows \<Rightarrow> rows | None \<Rightarrow> [])))"

definition getPatientById_db :: "PatientRow response \<Rightarrow> error + Patient" where
  "getPatientById_db resp =
     (case (error resp, data resp) of
        (None, Some row) \<Rightarrow> Inr (fromDbFormat row)
      | _ \<Rightarrow> Inl not_found)"

definition createPatient_db :: "PatientRow response \<Rightarrow> error + Patient" where
  "createPatient_db resp =
     (case error resp of
        Some err \<Rightarrow> Inl (Rethrown err)
      | None \<Rightarrow> (case data resp of Some row \<Rightarrow> Inr (fromDbFormat row) | None \<Rightarrow> Inl TypeError))"

definition updatePatient_db :: "PatientRow response \<Rightarrow> error + Patient" where
  "updatePatient_db resp =
     (case (error resp, data resp) of
        (None, Some row) \<Rightarrow> Inr (fromDbFormat row)
      | _ \<Rightarrow> Inl not_found)"

definition deletePatient_db :: "PatientRow response \<Rightarrow> error + unit" where
  "deletePatient_db resp =
     (case (error resp, data resp) of
        (None, Some row) \<Rightarrow> Inr ()
      | _ \<Rightarrow> Inl not_found)"

text \<open>The methods. \<open>clock\<close> holds what the four clock reads of \<^verbatim>\<open>createPatient\<close> return:
  \<^verbatim>\<open>Date.now()\<close>, \<^verbatim>\<open>new Date().toISOString()\<close> and the two \<^verbatim>\<open>new Date()\<close>.\<close>

record clock =
  now :: nat
  iso_string :: string
  created_now :: nat
  updated_now :: nat

definition getPatientById ::
  "process_env \<Rightarrow> db_env \<Rightarrow> string \<Rightarrow> state \<Rightarrow> (error + Patient) \<times> state" where
  "getPatientById env e pid st =
     (if isNoDB env then
        (case map_of (memoryPatients st) pid of
           None \<Rightarrow> (Inl not_found, st)
         | Some patient \<Rightarrow> (Inr patient, st))
      else
        with_supabase env st
          (\<lambda>st. (getPatientById_db (select_single e pid (patients st)), st)))"

definition new_patient :: "clock \<Rightarrow> CreatePatientRequest \<Rightarrow> Patient" where
  "new_patient clk patientData =
     \<lparr>p_id = ''patient-'' @ string_of_nat (now clk),
      p_name = c_name patientData,
      p_history =
        (case c_medicalHistory patientData of
           Some h \<Rightarrow> (if truthy_str (join '', '' h) then join '', '' h else [])
         | None \<Rightarrow> []),
      p_date = split_T_0 (iso_string clk),
      p_index = string_of_nat (now clk),
      p_biopsyConfirmed = Some False,
      p_doctor = Some ''Unknown'',
      p_createdAt = Date_ms (created_now clk),
      p_updatedAt = Date_ms (updated_now clk)\<rparr>"

definition createPatient ::
  "process_env \<Rightarrow> clock \<Rightarrow> db_env \<Rightarrow> CreatePatientRequest \<Rightarrow> state
     \<Rightarrow> (error + Patient) \<times> state" where
  "createPatient env clk e patientData st =
     (let patient = new_patient clk patientData in
      if isNoDB env then
        (Inr patient, st\<lparr>memoryPatients := AList.update (p_id patient) patient (memoryPatients st)\<rparr>)
      else
        with_supabase env st
          (\<lambda>st. case insert_single e (toDbFormat patient) (patients st) of
                  (resp, t') \<Rightarrow> (createPatient_db resp, st\<lparr>patients := t'\<rparr>)))"

definition updatePayload :: "UpdatePatientRequest \<Rightarrow> PatientUpdate" where
  "updatePayload updateData =
     (let p1 = (case q_name updateData of
                  Some n \<Rightarrow> (if truthy_str n then empty_update\<lparr>u_name := Some n\<rparr> else empty_update)
                | None \<Rightarrow> empty_update)
      in (case q_medicalHistory updateData of
            Some h \<Rightarrow> p1\<lparr>u_history := Some (join '', '' h)\<rparr>
          | None \<Rightarrow> p1))"

definition updatePatient ::
  "process_env \<Rightarrow> nat \<Rightarrow> db_env \<Rightarrow> UpdatePatientRequest \<Rightarrow> state
     \<Rightarrow> (error + Patient) \<times> state" where
  "updatePatient env t_now e updateData st =
     (if isNoDB env then
        (case map_of (memoryPatients st) (q_id updateData) of
           None \<Rightarrow> (Inl not_found, st)
         | Some existingPatient \<Rightarrow>
             (let updatedPatient = existingPatient
                   \<lparr>p_name :=
                      (case q_name updateData of
                         Some n \<Rightarrow> (if truthy_str n then n else p_name existingPatient)
                       | None \<Rightarrow> p_name existingPatient),
                    p_history :=
                      (case q_medicalHistory updateData of
                         Some h \<Rightarrow> (if truthy_str (join '', '' h) then join '', '' h
                                    else p_history existingPatient)
                       | None \<Rightarrow> p_history existingPatient),
                    p_updatedAt := Date_ms t_now\<rparr>
              in (Inr updatedPatient,
                  st\<lparr>memoryPatients :=
                       AList.update (q_id updateData) updatedPatient (memoryPatients st)\<rparr>)))
      else
        with_supabase env st
          (\<lambda>st. case update_single e (updatePayload updateData) (q_id updateData) (patients st) of
                  (resp, t') \<Rightarrow> (updatePatient_db resp, st\<lparr>patients := t'\<rparr>)))"

definition deletePatient ::
  "process_env \<Rightarrow> db_env \<Rightarrow> string \<Rightarrow> state \<Rightarrow> (error + unit) \<times> state" where
  "deletePatient env e pid st =
     (if isNoDB env then
        (if map_of (memoryPatients st) pid \<noteq> None
         then (Inr (), st\<lparr>memoryPatients := AList.delete pid (memoryPatients st)\<rparr>)
         else (Inl not_found, st))
      else
        with_supabase env st
          (\<lambda>st. case delete_single e pid (patients st) of
                  (resp, t') \<Rightarrow> (deletePatient_db resp, st\<lparr>patients := t'\<rparr>)))"

text \<open>The patient stored under an identifier, as the service would read it.\<close>

definition stored :: "process_env \<Rightarrow> state \<Rightarrow> string \<Rightarrow> Patient option" where
  "stored env st pid =
     (if isNoDB env then map_of (memoryPatients st) pid
      else (case matching pid (patients st) of [r] \<Rightarrow> Some (fromDbFormat r) | _ \<Rightarrow> None))"

text \<open>Whether an identifier is a key of the store.\<close>

definition present :: "process_env \<Rightarrow> state \<Rightarrow> string \<Rightarrow> bool" where
  "present env st pid =
     (if isNoDB env then pid \<in> set (map fst (memoryPatients st))
      else pid \<in> set (map r_patient_id (patients st)))"

text \<open>The state when the process starts: an empty map, an empty table, no client yet.\<close>

definition initial_state :: state where
  "initial_state = \<lparr>supabase_cache = None, logs = [], memoryPatients = [], patients = []\<rparr>"

text \<open>An environment with credentials, and the in-memory one.\<close>

definition database_env :: process_env where
  "database_env = \<lparr>SUPABASE_URL = Some ''https://example.test'', SUPABASE_ANON_KEY = Some ''key'',
     NO_DB = None\<rparr>"

definition memory_env :: process_env where
  "memory_env = \<lparr>SUPABASE_URL = None, SUPABASE_ANON_KEY = None, NO_DB = Some ''true''\<rparr>"

section \<open>Upload service (apps/backend/src/services/upload.service.ts)\<close>

subsection \<open>The runtime, the file system and the storage client\<close>

text \<open>
  A string is the list of the 8-bit characters of its UTF-8 encoding, so that a character
  outside ASCII is several of them, and a \<^verbatim>\<open>Buffer\<close> is a list of bytes. The
  functions of the Node runtime and of the storage client's library that the service
  calls, and whose code is not the repository's, are parameters: \<^verbatim>\<open>path.join\<close>,
  \<^verbatim>\<open>path.extname\<close>, \<^verbatim>\<open>Buffer.from(s, 'base64')\<close> and the client's \<^verbatim>\<open>getPublicUrl\<close>
  (of the client, the bucket and the object's name).
\<close>

type_synonym Buffer = "8 word list"

record runtime =
  path_join :: "string \<Rightarrow> string \<Rightarrow> string"
  extname :: "string \<Rightarrow> string"
  base64_decode :: "string \<Rightarrow> Buffer"
  getPublicUrl :: "SupabaseClient \<Rightarrow> string \<Rightarrow> string \<Rightarrow> string"

text \<open>
  The local disk maps a path to what is there, a regular file with its bytes or a
  directory. \<^verbatim>\<open>fs.existsSync\<close> holds of both; \<^verbatim>\<open>fs.readFileSync\<close> and \<^verbatim>\<open>fs.unlinkSync\<close>
  throw on a directory and on a missing path; \<^verbatim>\<open>fs.writeFileSync\<close> throws on a
  directory and creates or replaces a file otherwise. Permissions and missing parent
  directories are not modelled; for a write, whatever else makes the file system refuse
  it (permissions, a missing parent directory, a name too long, a full disk) is the
  environment's to decide, as the error \<open>write_fault\<close> that the call then throws.
\<close>

datatype node = File Buffer | Dir

type_synonym disk = "string \<rightharpoonup> node"

definition existsSync :: "disk \<Rightarrow> string \<Rightarrow> bool" where
  "existsSync d p = (d p \<noteq> None)"

definition mkdirSync :: "disk \<Rightarrow> string \<Rightarrow> disk" where
  "mkdirSync d p = d(p \<mapsto> Dir)"

definition readFileSync :: "disk \<Rightarrow> string \<Rightarrow> error + Buffer" where
  "readFileSync d p =
     (case d p of
        Some (File b) \<Rightarrow> Inr b
      | Some Dir \<Rightarrow> Inl (SystemError ''EISDIR'')
      | None \<Rightarrow> Inl (SystemError ''ENOENT''))"

definition unlinkSync :: "disk \<Rightarrow> string \<Rightarrow> error + disk" where
  "unlinkSync d p =
     (case d p of
        Some (File b) \<Rightarrow> Inr (d(p := None))
      | Some Dir \<Rightarrow> Inl (SystemError ''EISDIR'')
      | None \<Rightarrow> Inl (SystemError ''ENOENT''))"

definition writeFileSync :: "error option \<Rightarrow> disk \<Rightarrow> string \<Rightarrow> Buffer \<Rightarrow> error + disk" where
  "writeFileSync write_fault d p b =
     (case write_fault of
        Some err \<Rightarrow> Inl err
      | None \<Rightarrow>
          (case d p of
             Some Dir \<Rightarrow> Inl (SystemError ''EISDIR'')
           | _ \<Rightarrow> Inr (d(p \<mapsto> File b))))"

text \<open>
  The storage client is external, as the database client is. A call resolves to an
  object with an \<open>error\<close> that is \<open>null\<close> or the failure the storage side reports; the
  environment decides which (\<open>storage_fault\<close>). The state records every request made
  (\<open>requests\<close>) and the objects held (\<open>objects\<close>, by bucket and name): an upload with
  \<open>upsert\<close> that meets no failure stores the object, a removal that meets none deletes
  it, and a failed call changes nothing.
\<close>

datatype request =
  Upload string string Buffer string bool
| Remove string "string list"

record upload_state = process_state +
  disk :: disk
  objects :: "(string \<times> string) \<rightharpoonup> (Buffer \<times> string)"
  requests :: "request list"

subsection \<open>The service\<close>

definition BUCKET_NAME :: string where
  "BUCKET_NAME = ''oral_images''"

text \<open>The service object: its \<^verbatim>\<open>uploadsDir\<close>, which the constructor computes and
  creates on disk when it is not there.\<close>

record UploadService =
  uploadsDir :: string

definition ensureUploadsDirectory :: "UploadService \<Rightarrow> upload_state \<Rightarrow> upload_state" where
  "ensureUploadsDirectory this st =
     (if \<not> existsSync (disk st) (uploadsDir this)
      then st\<lparr>disk := mkdirSync (disk st) (uploadsDir this)\<rparr>
      else st)"

text \<open>\<^verbatim>\<open>s.toLowerCase()\<close> on the letters of ASCII.\<close>

definition lower_char :: "char \<Rightarrow> char" where
  "lower_char c =
     (case map_of (zip ''ABCDEFGHIJKLMNOPQRSTUVWXYZ'' ''abcdefghijklmnopqrstuvwxyz'') c of
        Some l \<Rightarrow> l
      | None \<Rightarrow> c)"

definition toLowerCase :: "string \<Rightarrow> string" where
  "toLowerCase s = map lower_char s"

definition getContentType :: "runtime \<Rightarrow> string \<Rightarrow> string" where
  "getContentType rt filename =
     (let ext = toLowerCase (extname rt filename) in
      if ext = ''.png'' then ''image/png''
      else if ext = ''.webp'' then ''image/webp''
      else ''image/jpeg'')"

definition uploadToSupabase ::
  "runtime \<Rightarrow> process_env \<Rightarrow> StorageError option \<Rightarrow> string \<Rightarrow> Buffer \<Rightarrow> upload_state
     \<Rightarrow> (error + string) \<times> upload_state" where
  "uploadToSupabase rt env storage_fault filename buffer st =
     (case getSupabase env st of
        (Inl err, st1) \<Rightarrow> (Inl err, st1)
      | (Inr supabase, st1) \<Rightarrow>
          (let contentType = getContentType rt filename;
               st2 = st1\<lparr>requests := requests st1 @
                       [Upload BUCKET_NAME filename buffer contentType True]\<rparr>
           in case storage_fault of
                Some err \<Rightarrow>
                  (Inl (JsError (''Failed to upload to Supabase: '' @ s_message err)),
                   st2\<lparr>logs := logs st2 @
                         [console_error_storage ''Supabase storage upload error:'' err]\<rparr>)
              | None \<Rightarrow>
                  (Inr (getPublicUrl rt supabase BUCKET_NAME filename),
                   st2\<lparr>objects := (objects st2)((BUCKET_NAME, filename) \<mapsto> (buffer, contentType))\<rparr>)))"

text \<open>The fields of \<^verbatim>\<open>Express.Multer.File\<close> that the service reads, and
  \<^verbatim>\<open>ProcessedImageResult\<close> (prefixed, \<open>size\<close> being a constant of HOL).\<close>

record MulterFile =
  f_filename :: string
  f_size :: nat

record ProcessedImageResult =
  res_filename :: string
  res_imageUrl :: string
  res_filePath :: string
  res_size :: nat

definition processImage ::
  "runtime \<Rightarrow> process_env \<Rightarrow> StorageError option \<Rightarrow> UploadService \<Rightarrow> MulterFile \<Rightarrow> upload_state
     \<Rightarrow> (error + ProcessedImageResult) \<times> upload_state" where
  "processImage rt env storage_fault this file st =
     (let filePath = path_join rt (uploadsDir this) (f_filename file);
          caught = (\<lambda>err st'.
            (Inl (JsError ''Failed to process image''),
             st'\<lparr>logs := logs st' @ [console_error ''Image processing error:'' err]\<rparr>))
      in case readFileSync (disk st) filePath of
           Inl err \<Rightarrow> caught err st
         | Inr buffer \<Rightarrow>
             (case uploadToSupabase rt env storage_fault (f_filename file) buffer st of
                (Inl err, st') \<Rightarrow> caught err st'
              | (Inr imageUrl, st') \<Rightarrow>
                  (Inr \<lparr>res_filename = f_filename file, res_imageUrl = imageUrl,
                        res_filePath = filePath, res_size = f_size file\<rparr>, st')))"

definition deleteImage ::
  "runtime \<Rightarrow> process_env \<Rightarrow> StorageError option \<Rightarrow> UploadService \<Rightarrow> string \<Rightarrow> upload_state
     \<Rightarrow> (error + unit) \<times> upload_state" where
  "deleteImage rt env storage_fault this filename st =
     (let filePath = path_join rt (uploadsDir this) filename;
          caught = (\<lambda>err st'.
            (Inl (JsError ''Failed to delete image''),
             st'\<lparr>logs := logs st' @ [console_error ''Delete image error:'' err]\<rparr>))
      in case (if existsSync (disk st) filePath then unlinkSync (disk st) filePath
               else Inr (disk st)) of
           Inl err \<Rightarrow> caught err st
         | Inr d \<Rightarrow>
             (case getSupabase env (st\<lparr>disk := d\<rparr>) of
                (Inl err, st1) \<Rightarrow> caught err st1
              | (Inr supabase, st1) \<Rightarrow>
                  (let st2 = st1\<lparr>requests := requests st1 @ [Remove BUCKET_NAME [filename]]\<rparr>
                   in case storage_fault of
                        Some err \<Rightarrow>
                          (Inr (), st2\<lparr>logs := logs st2 @
                             [console_warn ''Supabase storage delete warning:'' err]\<rparr>)
                      | None \<Rightarrow>
                          (Inr (), st2\<lparr>objects := (objects st2)((BUCKET_NAME, filename) := None)\<rparr>))))"

subsection \<open>Base64 images\<close>

text \<open>
  The match of \<^verbatim>\<open>/^data:image\/([a-zA-Z]+);base64,(.+)$/\<close>: the two groups, when the
  string is \<open>data:image/\<close>, one or more letters, \<open>;base64,\<close> and then, up to its end, one
  or more characters none of which is a line terminator (\<open>.\<close> matches none, and
  without the \<open>m\<close> flag \<open>$\<close> is the end of the string). A letter is never \<open>;\<close>, so the
  first group is the longest run of letters. The line terminators that \<open>.\<close> refuses are
  line feed, carriage return, U+2028 and U+2029; in UTF-8 the last two are the three
  characters \<open>E2 80 A8\<close> and \<open>E2 80 A9\<close>, which occur in an encoding only as these
  two code points. \<open>dots s\<close> says that \<open>.\<close> matches all along \<open>s\<close>: at no position of
  \<open>s\<close> does a line terminator begin.
\<close>

definition is_letter :: "char \<Rightarrow> bool" where
  "is_letter c =
     ((65 \<le> (of_char c :: nat) \<and> (of_char c :: nat) \<le> 90) \<or>
      (97 \<le> (of_char c :: nat) \<and> (of_char c :: nat) \<le> 122))"

definition at_line_terminator :: "string \<Rightarrow> bool" where
  "at_line_terminator s =
     (take 1 s = [CHR 0x0A] \<or> take 1 s = [CHR 0x0D] \<or>
      take 3 s = [CHR 0xE2, CHR 0x80, CHR 0xA8] \<or> take 3 s = [CHR 0xE2, CHR 0x80, CHR 0xA9])"

fun dots :: "string \<Rightarrow> bool" where
  "dots [] = True"
| "dots (c # cs) = (\<not> at_line_terminator (c # cs) \<and> dots cs)"

definition strip_prefix :: "string \<Rightarrow> string \<Rightarrow> string option" where
  "strip_prefix p s = (if take (length p) s = p then Some (drop (length p) s) else None)"

definition match_data_url :: "string \<Rightarrow> (string \<times> string) option" where
  "match_data_url s =
     (case strip_prefix ''data:image/'' s of
        None \<Rightarrow> None
      | Some rest \<Rightarrow>
          (let letters = takeWhile is_letter rest in
           if letters = [] then None
           else (case strip_prefix '';base64,'' (dropWhile is_letter rest) of
                   None \<Rightarrow> None
                 | Some payload \<Rightarrow>
                     (if payload \<noteq> [] \<and> dots payload
                      then Some (letters, payload) else None))))"

text \<open>The message of the error thrown on a string without a match (it says that the
  format of the base64 image is not valid), as UTF-8.\<close>

definition invalid_format_message :: string where
  "invalid_format_message =
    [CHR 0xE6, CHR 0x97, CHR 0xA0, CHR 0xE6, CHR 0x95, CHR 0x88, CHR 0xE7, CHR 0x9A,
     CHR 0x84, CHR 0x62, CHR 0x61, CHR 0x73, CHR 0x65, CHR 0x36, CHR 0x34, CHR 0xE5,
     CHR 0x9B, CHR 0xBE, CHR 0xE7, CHR 0x89, CHR 0x87, CHR 0xE6, CHR 0xA0, CHR 0xBC,
     CHR 0xE5, CHR 0xBC, CHR 0x8F]"

text \<open>
  \<^verbatim>\<open>saveBase64Image\<close>. \<open>t_now\<close> is what \<^verbatim>\<open>Date.now()\<close> returns and \<open>random36\<close> what
  \<^verbatim>\<open>Math.random().toString(36)\<close> returns; \<^verbatim>\<open>substring(7)\<close> drops its first seven
  characters. \<open>storage_fault\<close> and \<open>write_fault\<close> are what the storage side and the
  file system answer.
\<close>

definition saveBase64Image ::
  "runtime \<Rightarrow> process_env \<Rightarrow> StorageError option \<Rightarrow> error option \<Rightarrow> UploadService \<Rightarrow> nat
     \<Rightarrow> string \<Rightarrow> string \<Rightarrow> upload_state \<Rightarrow> (error + ProcessedImageResult) \<times> upload_state" where
  "saveBase64Image rt env storage_fault write_fault this t_now random36 base64Data st =
     (let caught = (\<lambda>err st'.
            (Inl (JsError ''Failed to save base64 image''),
             st'\<lparr>logs := logs st' @ [console_error ''Save base64 image error:'' err]\<rparr>))
      in case match_data_url base64Data of
           None \<Rightarrow> caught (JsError invalid_format_message) st
         | Some (m1, m2) \<Rightarrow>
             (let ext = (if m1 = ''jpeg'' then ''jpg'' else m1);
                  imageBuffer = base64_decode rt m2;
                  filename = ''seg_'' @ string_of_nat t_now @ ''_'' @ drop 7 random36 @ ''.'' @ ext;
                  filePath = path_join rt (uploadsDir this) filename
              in case writeFileSync write_fault (disk st) filePath imageBuffer of
                   Inl err \<Rightarrow> caught err st
                 | Inr d \<Rightarrow>
                     (case uploadToSupabase rt env storage_fault filename imageBuffer
                             (st\<lparr>disk := d\<rparr>) of
                        (Inl err, st') \<Rightarrow> caught err st'
                      | (Inr imageUrl, st') \<Rightarrow>
                          (Inr \<lparr>res_filename = filename, res_imageUrl = imageUrl,
                                res_filePath = filePath, res_size = length imageBuffer\<rparr>, st'))))"

text \<open>
  The pattern as the specification words it, to compare the match with, and written
  without the functions of the match: the string is
  \<open>data:image/<letters>;base64,<payload>\<close>, the letters are one or more of the 52 letters
  of ASCII, and the payload is not empty and holds none of the four line terminators
  anywhere in it.
\<close>

definition ascii_letters :: string where
  "ascii_letters = ''abcdefghijklmnopqrstuvwxyzABCDEFGHIJKLMNOPQRSTUVWXYZ''"

definition line_terminators :: "string list" where
  "line_terminators =
     [[CHR 0x0A], [CHR 0x0D], [CHR 0xE2, CHR 0x80, CHR 0xA8], [CHR 0xE2, CHR 0x80, CHR 0xA9]]"

definition data_url_pattern :: "string \<Rightarrow> string \<Rightarrow> string \<Rightarrow> bool" where
  "data_url_pattern s letters payload =
     (s = ''data:image/'' @ letters @ '';base64,'' @ payload \<and>
      letters \<noteq> [] \<and> list_all (\<lambda>c. c \<in> set ascii_letters) letters \<and>
      payload \<noteq> [] \<and> list_all (\<lambda>t. \<not> sublist t payload) line_terminators)"

subsection \<open>A runtime and a state for examples\<close>

text \<open>The environment of the examples is \<open>database_env\<close>.\<close>

definition example_runtime :: runtime where
  "example_runtime =
     \<lparr>path_join = (\<lambda>d f. d @ ''/'' @ f),
      extname = (\<lambda>f. dropWhile (\<lambda>c. c \<noteq> CHR ''.'') f),
      base64_decode = (\<lambda>s. if s = ''AAAA'' then [0, 0, 0] else []),
      getPublicUrl = (\<lambda>c b f. (case c of createClient u k \<Rightarrow> u) @ ''/storage/'' @ b @ ''/'' @ f)\<rparr>"

definition example_state :: upload_state where
  "example_state =
     \<lparr>supabase_cache = None,
      logs = [],
      disk = [''/srv/uploads'' \<mapsto> Dir, ''/srv/uploads/a.png'' \<mapsto> File [137, 80, 78, 71]],
      objects = [(''oral_images'', ''a.png'') \<mapsto> ([137, 80, 78, 71], ''image/png'')],
      requests = []\<rparr>"

section \<open>Diagnosis rows (supabase_schema.sql, types/database.types.ts)\<close>

subsection \<open>Types\<close>

text \<open>
  \<^verbatim>\<open>DiagnosisRow\<close>, \<^verbatim>\<open>DiagnosisInsert\<close> and \<^verbatim>\<open>DiagnosisUpdate\<close>, with the prefixes
  \<open>d_\<close>, \<open>di_\<close> and \<open>du_\<close> (\<open>det_\<close> for a \<^verbatim>\<open>Detection\<close>). A stored \<open>DECIMAL(5,4)\<close> is the rational number it
  denotes. A JavaScript \<open>number\<close> reaches the database as a JSON number, a finite decimal
  (\<open>Some\<close> of a rational), or as \<open>null\<close> when it is \<open>NaN\<close> or infinite (\<open>None\<close>), which
  is also how a nullable column is written \<open>null\<close> or left out of an insert. In an update
  payload the outer \<open>None\<close> is an absent key.
\<close>

datatype DiagnosisType = Gastritis | Oral

datatype SeverityLevel = Low | Medium | High

record Detection =
  det_class_name :: string
  det_confidence :: rat
  det_bbox :: "rat list"

record DiagnosisRow =
  d_id :: string
  d_patient_id :: string
  d_type :: DiagnosisType
  d_image_url :: string
  d_confidence :: rat
  d_finding :: string
  d_recommendation :: string
  d_severity :: "SeverityLevel option"
  d_report_recommendation :: "string option"
  d_status_code :: "string option"
  d_olp_score :: "rat option"
  d_olk_score :: "rat option"
  d_ooml_score :: "rat option"
  d_opmd_score :: "rat option"
  d_knowledge :: "string option"
  d_annotated_image_url :: "string option"
  d_detections :: "Detection list option"
  d_created_at :: string
  d_updated_at :: string

record DiagnosisInsert =
  di_patient_id :: string
  di_type :: DiagnosisType
  di_image_url :: string
  di_confidence :: "rat option"
  di_finding :: string
  di_recommendation :: string
  di_severity :: "SeverityLevel option"
  di_report_recommendation :: "string option"
  di_status_code :: "string option"
  di_olp_score :: "rat option"
  di_olk_score :: "rat option"
  di_ooml_score :: "rat option"
  di_opmd_score :: "rat option"
  di_knowledge :: "string option"
  di_annotated_image_url :: "string option"
  di_detections :: "Detection list option"

record DiagnosisUpdate =
  du_patient_id :: "string option"
  du_type :: "DiagnosisType option"
  du_image_url :: "string option"
  du_confidence :: "rat option option"
  du_finding :: "string option"
  du_recommendation :: "string option"
  du_severity :: "SeverityLevel option option"
  du_report_recommendation :: "string option option"
  du_status_code :: "string option option"
  du_olp_score :: "rat option option"
  du_olk_score :: "rat option option"
  du_ooml_score :: "rat option option"
  du_opmd_score :: "rat option option"
  du_knowledge :: "string option option"
  du_annotated_image_url :: "string option option"
  du_detections :: "Detection list option option"

subsection \<open>The columns' type and check constraints\<close>

text \<open>
  A value written to a \<open>DECIMAL(5,4)\<close> column is first brought to the column's type:
  rounded to four decimal places, ties away from zero, and refused when the rounded value
  needs more than one digit before the decimal point. The constraints of the table are
  evaluated on the row so formed.
\<close>

definition round4 :: "rat \<Rightarrow> rat" where
  "round4 x = sgn x * of_int \<lfloor>\<bar>x\<bar> * 10000 + 1 / 2\<rfloor> / 10000"

definition numeric_overflow :: PostgrestError where
  "numeric_overflow = \<lparr>message = ''numeric field overflow'', details = [], hint = [],
     code = ''22003''\<rparr>"

definition not_null_violation :: PostgrestError where
  "not_null_violation = \<lparr>message = ''null value in column violates not-null constraint'',
     details = [], hint = [], code = ''23502''\<rparr>"

definition check_violation :: PostgrestError where
  "check_violation = \<lparr>message = ''new row violates check constraint'', details = [],
     hint = [], code = ''23514''\<rparr>"

definition decimal_5_4 :: "rat option \<Rightarrow> PostgrestError + rat option" where
  "decimal_5_4 v =
     (case v of
        None \<Rightarrow> Inr None
      | Some x \<Rightarrow> (if 10 \<le> \<bar>round4 x\<bar> then Inl numeric_overflow else Inr (Some (round4 x))))"

text \<open>\<^verbatim>\<open>CHECK (confidence >= 0 AND confidence <= 1)\<close> and, for each score \<open>s\<close>,
  \<^verbatim>\<open>CHECK (s IS NULL OR (s >= 0 AND s <= 1))\<close>.\<close>

definition confidence_check :: "rat \<Rightarrow> bool" where
  "confidence_check c = (c \<ge> 0 \<and> c \<le> 1)"

definition score_check :: "rat option \<Rightarrow> bool" where
  "score_check s = (case s of None \<Rightarrow> True | Some v \<Rightarrow> v \<ge> 0 \<and> v \<le> 1)"

definition row_checks :: "DiagnosisRow \<Rightarrow> bool" where
  "row_checks r =
     (confidence_check (d_confidence r) \<and> score_check (d_olp_score r) \<and>
      score_check (d_olk_score r) \<and> score_check (d_ooml_score r) \<and>
      score_check (d_opmd_score r))"

subsection \<open>Writes to the table\<close>

text \<open>The five numeric columns of a row, each a value or the error of bringing it to
  its type; the first error is the statement's.\<close>

definition numeric_columns ::
  "PostgrestError + rat option \<Rightarrow> PostgrestError + rat option \<Rightarrow> PostgrestError + rat option
     \<Rightarrow> PostgrestError + rat option \<Rightarrow> PostgrestError + rat option
     \<Rightarrow> PostgrestError + (rat option \<times> rat option \<times> rat option \<times> rat option \<times> rat option)" where
  "numeric_columns c s1 s2 s3 s4 =
     (case c of Inl err \<Rightarrow> Inl err | Inr c' \<Rightarrow>
      case s1 of Inl err \<Rightarrow> Inl err | Inr s1' \<Rightarrow>
      case s2 of Inl err \<Rightarrow> Inl err | Inr s2' \<Rightarrow>
      case s3 of Inl err \<Rightarrow> Inl err | Inr s3' \<Rightarrow>
      case s4 of Inl err \<Rightarrow> Inl err | Inr s4' \<Rightarrow>
        Inr (c', s1', s2', s3', s4'))"

text \<open>A column under an update: the written value brought to the column's type, or
  the stored value when the payload has no such key.\<close>

definition written :: "rat option option \<Rightarrow> rat option \<Rightarrow> PostgrestError + rat option" where
  "written w old = (case w of Some v \<Rightarrow> decimal_5_4 v | None \<Rightarrow> Inr old)"

text \<open>The row an \<open>INSERT\<close> forms, or the error that refuses it: a value that does not
  fit its column, a \<open>null\<close> confidence (\<open>NOT NULL\<close>), a violated check.\<close>

definition inserted_row :: "db_env \<Rightarrow> DiagnosisInsert \<Rightarrow> PostgrestError + DiagnosisRow" where
  "inserted_row e ins =
     (case numeric_columns (decimal_5_4 (di_confidence ins)) (decimal_5_4 (di_olp_score ins))
             (decimal_5_4 (di_olk_score ins)) (decimal_5_4 (di_ooml_score ins))
             (decimal_5_4 (di_opmd_score ins)) of
        Inl err \<Rightarrow> Inl err
      | Inr (None, s1, s2, s3, s4) \<Rightarrow> Inl not_null_violation
      | Inr (Some c, s1, s2, s3, s4) \<Rightarrow>
          (let row =
             \<lparr>d_id = new_uuid e,
              d_patient_id = di_patient_id ins,
              d_type = di_type ins,
              d_image_url = di_image_url ins,
              d_confidence = c,
              d_finding = di_finding ins,
              d_recommendation = di_recommendation ins,
              d_severity = di_severity ins,
              d_report_recommendation = di_report_recommendation ins,
              d_status_code = di_status_code ins,
              d_olp_score = s1,
              d_olk_score = s2,
              d_ooml_score = s3,
              d_opmd_score = s4,
              d_knowledge = di_knowledge ins,
              d_annotated_image_url = di_annotated_image_url ins,
              d_detections = di_detections ins,
              d_created_at = db_now e,
              d_updated_at = db_now e\<rparr>
           in if row_checks row then Inr row else Inl check_violation))"

definition insert_diagnosis ::
  "db_env \<Rightarrow> DiagnosisInsert \<Rightarrow> DiagnosisRow list
     \<Rightarrow> DiagnosisRow response \<times> DiagnosisRow list" where
  "insert_diagnosis e ins t =
     (case fault e of
        Some err \<Rightarrow> (failed err, t)
      | None \<Rightarrow>
          (case inserted_row e ins of
             Inl err \<Rightarrow> (failed err, t)
           | Inr row \<Rightarrow>
               (if new_uuid e \<in> set (map d_id t) then (failed unique_violation, t)
                else (\<lparr>data = Some row, error = None\<rparr>, t @ [row]))))"

text \<open>The new version of a row under an \<open>UPDATE\<close> (the trigger
  \<open>update_diagnoses_updated_at\<close> sets \<open>updated_at\<close>), or the error that refuses it.\<close>

definition updated_row ::
  "db_env \<Rightarrow> DiagnosisUpdate \<Rightarrow> DiagnosisRow \<Rightarrow> PostgrestError + DiagnosisRow" where
  "updated_row e u r =
     (case numeric_columns
             (written (du_confidence u) (Some (d_confidence r)))
             (written (du_olp_score u) (d_olp_score r))
             (written (du_olk_score u) (d_olk_score r))
             (written (du_ooml_score u) (d_ooml_score r))
             (written (du_opmd_score u) (d_opmd_score r)) of
        Inl err \<Rightarrow> Inl err
      | Inr (None, s1, s2, s3, s4) \<Rightarrow> Inl not_null_violation
      | Inr (Some c, s1, s2, s3, s4) \<Rightarrow>
          (let row =
             \<lparr>d_id = d_id r,
              d_patient_id = (case du_patient_id u of Some v \<Rightarrow> v | None \<Rightarrow> d_patient_id r),
              d_type = (case du_type u of Some v \<Rightarrow> v | None \<Rightarrow> d_type r),
              d_image_url = (case du_image_url u of Some v \<Rightarrow> v | None \<Rightarrow> d_image_url r),
              d_confidence = c,
              d_finding = (case du_finding u of Some v \<Rightarrow> v | None \<Rightarrow> d_finding r),
              d_recommendation =
                (case du_recommendation u of Some v \<Rightarrow> v | None \<Rightarrow> d_recommendation r),
              d_severity = (case du_severity u of Some v \<Rightarrow> v | None \<Rightarrow> d_severity r),
              d_report_recommendation =
                (case du_report_recommendation u of Some v \<Rightarrow> v
                 | None \<Rightarrow> d_report_recommendation r),
              d_status_code = (case du_status_code u of Some v \<Rightarrow> v | None \<Rightarrow> d_status_code r),
              d_olp_score = s1,
              d_olk_score = s2,
              d_ooml_score = s3,
              d_opmd_score = s4,
              d_knowledge = (case du_knowledge u of Some v \<Rightarrow> v | None \<Rightarrow> d_knowledge r),
              d_annotated_image_url =
                (case du_annotated_image_url u of Some v \<Rightarrow> v
                 | None \<Rightarrow> d_annotated_image_url r),
              d_detections = (case du_detections u of Some v \<Rightarrow> v | None \<Rightarrow> d_detections r),
              d_created_at = d_created_at r,
              d_updated_at = db_now e\<rparr>
           in if row_checks row then Inr row else Inl check_violation))"

text \<open>An \<open>UPDATE\<close> of the rows that the filter \<open>sel\<close> selects: every selected row
  gets its new version, or the first error refuses the whole statement.\<close>

fun update_rows ::
  "db_env \<Rightarrow> (DiagnosisRow \<Rightarrow> bool) \<Rightarrow> DiagnosisUpdate \<Rightarrow> DiagnosisRow list
     \<Rightarrow> PostgrestError + DiagnosisRow list" where
  "update_rows e sel u [] = Inr []"
| "update_rows e sel u (r # rs) =
     (if sel r then
        (case updated_row e u r of
           Inl err \<Rightarrow> Inl err
         | Inr r' \<Rightarrow> (case update_rows e sel u rs of Inl err \<Rightarrow> Inl err | Inr rs' \<Rightarrow> Inr (r' # rs')))
      else (case update_rows e sel u rs of Inl err \<Rightarrow> Inl err | Inr rs' \<Rightarrow> Inr (r # rs')))"

definition update_diagnoses ::
  "db_env \<Rightarrow> (DiagnosisRow \<Rightarrow> bool) \<Rightarrow> DiagnosisUpdate \<Rightarrow> DiagnosisRow list
     \<Rightarrow> DiagnosisRow list response \<times> DiagnosisRow list" where
  "update_diagnoses e sel u t =
     (case fault e of
        Some err \<Rightarrow> (failed err, t)
      | None \<Rightarrow>
          (case update_rows e sel u t of
             Inl err \<Rightarrow> (failed err, t)
           | Inr t' \<Rightarrow> (\<lparr>data = Some (filter sel t), error = None\<rparr>, t')))"

definition delete_diagnoses ::
  "db_env \<Rightarrow> (DiagnosisRow \<Rightarrow> bool) \<Rightarrow> DiagnosisRow list
     \<Rightarrow> DiagnosisRow list response \<times> DiagnosisRow list" where
  "delete_diagnoses e sel t =
     (case fault e of
        Some err \<Rightarrow> (failed err, t)
      | None \<Rightarrow> (\<lparr>data = Some (filter sel t), error = None\<rparr>, filter (\<lambda>r. \<not> sel r) t))"

text \<open>The stored states that can be reached: the empty table and whatever a sequence
  of writes makes of it.\<close>

datatype diagnosis_write =
  Insert_diagnosis db_env DiagnosisInsert
| Update_diagnoses db_env "DiagnosisRow \<Rightarrow> bool" DiagnosisUpdate
| Delete_diagnoses db_env "DiagnosisRow \<Rightarrow> bool"

fun apply_write :: "diagnosis_write \<Rightarrow> DiagnosisRow list \<Rightarrow> DiagnosisRow list" where
  "apply_write (Insert_diagnosis e ins) t = snd (insert_diagnosis e ins t)"
| "apply_write (Update_diagnoses e sel u) t = snd (update_diagnoses e sel u t)"
| "apply_write (Delete_diagnoses e sel) t = snd (delete_diagnoses e sel t)"

definition reached :: "diagnosis_write list \<Rightarrow> DiagnosisRow list" where
  "reached ws = foldl (\<lambda>t w. apply_write w t) [] ws"

text \<open>A written value that is still outside \<open>[0,1]\<close> once rounded to four places.\<close>

definition out_of_range :: "rat option \<Rightarrow> bool" where
  "out_of_range v = (case v of None \<Rightarrow> False | Some x \<Rightarrow> round4 x < 0 \<or> 1 < round4 x)"

definition insert_out_of_range :: "DiagnosisInsert \<Rightarrow> bool" where
  "insert_out_of_range ins =
     (out_of_range (di_confidence ins) \<or> out_of_range (di_olp_score ins) \<or>
      out_of_range (di_olk_score ins) \<or> out_of_range (di_ooml_score ins) \<or>
      out_of_range (di_opmd_score ins))"

text \<open>The value an update payload writes to a column, if any.\<close>

definition payload_value :: "rat option option \<Rightarrow> rat option" where
  "payload_value w = (case w of Some v \<Rightarrow> v | None \<Rightarrow> None)"

definition update_out_of_range :: "DiagnosisUpdate \<Rightarrow> bool" where
  "update_out_of_range u =
     (out_of_range (payload_value (du_confidence u)) \<or> out_of_range (payload_value (du_olp_score u)) \<or>
      out_of_range (payload_value (du_olk_score u)) \<or> out_of_range (payload_value (du_ooml_score u)) \<or>
      out_of_range (payload_value (du_opmd_score u)))"

section \<open>Properties of the patient service\<close>

subsection \<open>Auxiliary facts\<close>

lemma getSupabase_cached: "supabase_cache st = Some c \<Longrightarrow> getSupabase env st = (Inr c, st)"
  by (simp add: getSupabase_def)

lemma getSupabase_caches: "getSupabase env st = (Inr c, st1) \<Longrightarrow> supabase_cache st1 = Some c"
  by (auto simp: getSupabase_def split: option.splits if_splits)

lemma getSupabase_throws: "getSupabase env st = (Inl err, st1) \<Longrightarrow> st1 = st"
  by (auto simp: getSupabase_def split: option.splits if_splits)

lemma getSupabase_store:
  "memoryPatients (snd (getSupabase env st)) = memoryPatients st"
  "patients (snd (getSupabase env st)) = patients st"
  by (auto simp: getSupabase_def split: option.splits)

lemma with_supabase_cached: "supabase_cache st = Some c \<Longrightarrow> with_supabase env st k = k st"
  by (simp add: with_supabase_def getSupabase_cached)

lemma database_env_client:
  "getSupabase database_env initial_state =
     (Inr (createClient ''https://example.test'' ''key''),
      initial_state\<lparr>supabase_cache := Some (createClient ''https://example.test'' ''key'')\<rparr>)"
  "getSupabase database_env (initial_state\<lparr>patients := t\<rparr>) =
     (Inr (createClient ''https://example.test'' ''key''),
      initial_state\<lparr>patients := t,
        supabase_cache := Some (createClient ''https://example.test'' ''key'')\<rparr>)"
  by (simp_all add: getSupabase_def database_env_def initial_state_def credentials_def truthy_str_def)

lemma example_modes: "\<not> isNoDB database_env" "isNoDB memory_env"
  by (simp_all add: isNoDB_def database_env_def memory_env_def)

lemma matching_absent: "pid \<notin> set (map r_patient_id t) \<Longrightarrow> matching pid t = []"
  by (induction t) (auto simp: matching_def)

lemma map_of_absent: "pid \<notin> set (map fst m) \<Longrightarrow> map_of m pid = None"
  by (simp add: map_of_eq_None_iff)

lemma matching_append_new:
  "pid \<notin> set (map r_patient_id t) \<Longrightarrow> r_patient_id r = pid \<Longrightarrow> matching pid (t @ [r]) = [r]"
  by (simp add: matching_def matching_absent [unfolded matching_def])

lemma matching_map:
  assumes "\<And>r. r_patient_id (f r) = r_patient_id r"
  shows "matching pid (map (\<lambda>r. if r_patient_id r = pid then f r else r) t) = map f (matching pid t)"
  by (induction t) (auto simp: matching_def assms)

lemma updatePayload_keys:
  "u_patient_id (updatePayload u) = None" "u_date (updatePayload u) = None"
  "u_index (updatePayload u) = None" "u_biopsy_confirmed (updatePayload u) = None"
  "u_doctor (updatePayload u) = None"
  "q_name u = None \<Longrightarrow> u_name (updatePayload u) = None"
  "q_medicalHistory u = None \<Longrightarrow> u_history (updatePayload u) = None"
  by (auto simp: updatePayload_def empty_update_def Let_def split: option.splits)

lemma apply_update_patient_id:
  "u_patient_id up = None \<Longrightarrow> r_patient_id (apply_update e up r) = r_patient_id r"
  by (simp add: apply_update_def)

text \<open>An update of the one row of an identifier either rewrites that row, which stays the
  one row of the identifier, or reports an error and leaves the table alone.\<close>

lemma update_single_cases:
  assumes "matching pid t = [r]" and "u_patient_id up = None"
    and "update_single e up pid t = (resp, t')"
  shows "(resp = single [apply_update e up r] \<and> matching pid t' = [apply_update e up r]) \<or>
         (error resp \<noteq> None \<and> t' = t)"
proof (cases "fault e = None \<and> up \<noteq> empty_update")
  case True
  have "matching pid (map (\<lambda>r. if r_patient_id r = pid then apply_update e up r else r) t)
          = map (apply_update e up) (matching pid t)"
    by (rule matching_map) (simp add: apply_update_patient_id assms(2))
  with True assms show ?thesis
    by (auto simp: update_single_def Let_def)
next
  case False
  with assms show ?thesis
    by (auto simp: update_single_def failed_def single_def split: option.splits)
qed

lemma update_present_keys:
  "k \<in> set (map fst al) \<Longrightarrow> map fst (AList.update k v al) = map fst al"
  by (induction al) auto

lemma update_key_in: "k \<in> set (map fst (AList.update k v al))"
  by (induction al) auto

lemma string_of_nat_42: "string_of_nat 42 = ''42''"
  by (simp add: string_of_nat.simps digit_char_def)

subsection \<open>Errors in database mode\<close>

text \<open>
  C1 (as amended). In database mode \<^verbatim>\<open>getAllPatients\<close> and \<^verbatim>\<open>createPatient\<close> rethrow the
  database client's error unchanged, whereas \<^verbatim>\<open>getPatientById\<close>, \<^verbatim>\<open>updatePatient\<close> and
  \<^verbatim>\<open>deletePatient\<close> answer every response that carries an error, whatever the error
  is, and every response without a row by the error \<open>Patient not found\<close> with HTTP status
  404.
\<close>

theorem database_mode_errors:
  "(error ra = Some e \<longrightarrow> getAllPatients_db ra = Inl (Rethrown e)) \<and>
   (error r = Some e \<longrightarrow> createPatient_db r = Inl (Rethrown e)) \<and>
   (error r \<noteq> None \<or> data r = None \<longrightarrow>
      getPatientById_db r = Inl (createError ''Patient not found'' 404) \<and>
      updatePatient_db r = Inl (createError ''Patient not found'' 404) \<and>
      deletePatient_db r = Inl (createError ''Patient not found'' 404))"
  by (auto simp: getAllPatients_db_def createPatient_db_def getPatientById_db_def
      updatePatient_db_def deletePatient_db_def not_found_def split: option.splits)

theorem database_mode_errors_witness:
  "error (failed \<lparr>message = ''fetch failed'', details = [], hint = [], code = []\<rparr>
           :: PatientRow list response)
     = Some \<lparr>message = ''fetch failed'', details = [], hint = [], code = []\<rparr> \<and>
   error (failed \<lparr>message = ''fetch failed'', details = [], hint = [], code = []\<rparr>
           :: PatientRow response)
     = Some \<lparr>message = ''fetch failed'', details = [], hint = [], code = []\<rparr> \<and>
   getAllPatients_db (failed \<lparr>message = ''fetch failed'', details = [], hint = [], code = []\<rparr>)
     = Inl (Rethrown \<lparr>message = ''fetch failed'', details = [], hint = [], code = []\<rparr>) \<and>
   createPatient_db (failed \<lparr>message = ''fetch failed'', details = [], hint = [], code = []\<rparr>)
     = Inl (Rethrown \<lparr>message = ''fetch failed'', details = [], hint = [], code = []\<rparr>) \<and>
   getPatientById_db (failed \<lparr>message = ''fetch failed'', details = [], hint = [], code = []\<rparr>)
     = Inl (createError ''Patient not found'' 404) \<and>
   updatePatient_db (failed \<lparr>message = ''fetch failed'', details = [], hint = [], code = []\<rparr>)
     = Inl (createError ''Patient not found'' 404) \<and>
   deletePatient_db (failed \<lparr>message = ''fetch failed'', details = [], hint = [], code = []\<rparr>)
     = Inl (createError ''Patient not found'' 404)"
  using database_mode_errors
    [of "failed \<lparr>message = ''fetch failed'', details = [], hint = [], code = []\<rparr>"
        "\<lparr>message = ''fetch failed'', details = [], hint = [], code = []\<rparr>"
        "failed \<lparr>message = ''fetch failed'', details = [], hint = [], code = []\<rparr>"]
  by (simp add: failed_def)

text \<open>
  C1 as stated fails: the patient \<open>patient-1\<close> is in the table, the client reports a
  transport failure, and each of the three methods throws the 404 error in place of the
  client's error.
\<close>

theorem database_mode_errors_counterexample:
  "present database_env
     (initial_state\<lparr>patients := [\<lparr>r_id = ''u1'', r_patient_id = ''patient-1'', r_name = ''Ann'', r_history = ''flu'',
        r_date = ''2024-01-02'', r_index = ''1'', r_biopsy_confirmed = Some True,
        r_doctor = Some ''Unknown'', r_created_at = ''t0'', r_updated_at = ''t0''\<rparr>]\<rparr>)
     ''patient-1'' \<and>
   fst (getPatientById database_env
     \<lparr>fault = Some \<lparr>message = ''fetch failed'', details = [], hint = [], code = []\<rparr>, new_uuid = ''u2'', db_now = ''t1''\<rparr>
     ''patient-1''
     (initial_state\<lparr>patients := [\<lparr>r_id = ''u1'', r_patient_id = ''patient-1'', r_name = ''Ann'', r_history = ''flu'',
        r_date = ''2024-01-02'', r_index = ''1'', r_biopsy_confirmed = Some True,
        r_doctor = Some ''Unknown'', r_created_at = ''t0'', r_updated_at = ''t0''\<rparr>]\<rparr>))
     = Inl (createError ''Patient not found'' 404) \<and>
   fst (updatePatient database_env 5
     \<lparr>fault = Some \<lparr>message = ''fetch failed'', details = [], hint = [], code = []\<rparr>, new_uuid = ''u2'', db_now = ''t1''\<rparr>
     \<lparr>q_id = ''patient-1'', q_name = Some ''Bea'', q_medicalHistory = None\<rparr>
     (initial_state\<lparr>patients := [\<lparr>r_id = ''u1'', r_patient_id = ''patient-1'', r_name = ''Ann'', r_history = ''flu'',
        r_date = ''2024-01-02'', r_index = ''1'', r_biopsy_confirmed = Some True,
        r_doctor = Some ''Unknown'', r_created_at = ''t0'', r_updated_at = ''t0''\<rparr>]\<rparr>))
     = Inl (createError ''Patient not found'' 404) \<and>
   fst (deletePatient database_env
     \<lparr>fault = Some \<lparr>message = ''fetch failed'', details = [], hint = [], code = []\<rparr>, new_uuid = ''u2'', db_now = ''t1''\<rparr>
     ''patient-1''
     (initial_state\<lparr>patients := [\<lparr>r_id = ''u1'', r_patient_id = ''patient-1'', r_name = ''Ann'', r_history = ''flu'',
        r_date = ''2024-01-02'', r_index = ''1'', r_biopsy_confirmed = Some True,
        r_doctor = Some ''Unknown'', r_created_at = ''t0'', r_updated_at = ''t0''\<rparr>]\<rparr>))
     = Inl (createError ''Patient not found'' 404) \<and>
   (Inl (createError ''Patient not found'' 404) :: error + Patient)
     \<noteq> Inl (Rethrown \<lparr>message = ''fetch failed'', details = [], hint = [], code = []\<rparr>)"
  by (simp add: present_def example_modes getPatientById_def updatePatient_def deletePatient_def
      with_supabase_def database_env_client select_single_def update_single_def
      delete_single_def failed_def getPatientById_db_def updatePatient_db_def
      deletePatient_db_def not_found_def)

subsection \<open>Create, then fetch\<close>

text \<open>
  C2. When \<^verbatim>\<open>createPatient\<close> returns a patient, \<^verbatim>\<open>getPatientById\<close> with that patient's
  identifier succeeds and returns the very same patient, so in particular the same id,
  name, history, date, index, biopsyConfirmed and doctor, in the in-memory mode and in
  database mode (where the client is taken to answer the second call).
\<close>

theorem create_then_get:
  assumes "createPatient env clk e patientData st = (Inr p, st')"
    and "\<not> isNoDB env \<Longrightarrow> fault e' = None"
  shows "getPatientById env e' (p_id p) st' = (Inr p, st')"
proof (cases "isNoDB env")
  case True
  with assms(1) show ?thesis
    by (auto simp: createPatient_def getPatientById_def Let_def update_conv')
next
  case False
  let ?ins = "toDbFormat (new_patient clk patientData)"
  let ?r = "new_row e ?ins"
  from assms(1) False obtain c st1 where g: "getSupabase env st = (Inr c, st1)"
    by (cases "getSupabase env st")
      (auto simp: createPatient_def Let_def with_supabase_def split: sum.splits)
  with assms(1) False obtain resp t' where
    ins: "insert_single e ?ins (patients st1) = (resp, t')"
    and res: "createPatient_db resp = Inr p" and st': "st' = st1\<lparr>patients := t'\<rparr>"
    by (auto simp: createPatient_def Let_def with_supabase_def split: prod.splits)
  from ins res have fresh: "i_patient_id ?ins \<notin> set (map r_patient_id (patients st1))"
    and t': "t' = patients st1 @ [?r]" and resp: "resp = single [?r]"
    by (auto simp: insert_single_def createPatient_db_def failed_def
        split: option.splits if_splits)
  from resp res have p: "p = fromDbFormat ?r"
    by (simp add: single_def createPatient_db_def)
  have "r_patient_id ?r = p_id p" and "p_id p = i_patient_id ?ins"
    by (simp_all add: p fromDbFormat_def new_row_def)
  with fresh t' have m: "matching (p_id p) t' = [?r]"
    using matching_append_new by metis
  have "supabase_cache st' = Some c"
    using getSupabase_caches [OF g] by (simp add: st')
  then have ws: "with_supabase env st' k = k st'" for k
    by (rule with_supabase_cached)
  have "getPatientById env e' (p_id p) st' =
      (getPatientById_db (select_single e' (p_id p) (patients st')), st')"
    using False by (simp add: getPatientById_def ws)
  with False assms(2) m show ?thesis
    by (simp add: select_single_def single_def getPatientById_db_def st' p)
qed

theorem create_then_get_witness:
  "(\<exists>p st'. createPatient database_env
       \<lparr>now = 42, iso_string = ''2024-01-02T03:04:05.678Z'', created_now = 42, updated_now = 42\<rparr>
       \<lparr>fault = None, new_uuid = ''u1'', db_now = ''t1''\<rparr>
       \<lparr>c_name = ''Ann'', c_medicalHistory = Some [''flu'', ''cold'']\<rparr>
       initial_state = (Inr p, st') \<and>
     p_id p = ''patient-42'' \<and> p_history p = ''flu, cold'' \<and> p_date p = ''2024-01-02'' \<and>
     p_biopsyConfirmed p = None \<and>
     getPatientById database_env \<lparr>fault = None, new_uuid = ''u2'', db_now = ''t2''\<rparr>
       ''patient-42'' st' = (Inr p, st')) \<and>
   (\<exists>p st'. createPatient memory_env
       \<lparr>now = 42, iso_string = ''2024-01-02T03:04:05.678Z'', created_now = 42, updated_now = 42\<rparr>
       \<lparr>fault = None, new_uuid = ''u1'', db_now = ''t1''\<rparr>
       \<lparr>c_name = ''Ann'', c_medicalHistory = Some [''flu'', ''cold'']\<rparr>
       initial_state = (Inr p, st') \<and>
     p_id p = ''patient-42'' \<and> p_biopsyConfirmed p = Some False \<and>
     getPatientById memory_env \<lparr>fault = None, new_uuid = ''u2'', db_now = ''t2''\<rparr>
       ''patient-42'' st' = (Inr p, st'))"
proof -
  let ?C = "\<lparr>now = 42, iso_string = ''2024-01-02T03:04:05.678Z'', created_now = 42, updated_now = 42\<rparr>"
  let ?E = "\<lparr>fault = None, new_uuid = ''u1'', db_now = ''t1''\<rparr>"
  let ?E' = "\<lparr>fault = None, new_uuid = ''u2'', db_now = ''t2''\<rparr>"
  let ?R = "\<lparr>c_name = ''Ann'', c_medicalHistory = Some [''flu'', ''cold'']\<rparr>"
  let ?pd = "fromDbFormat (new_row ?E (toDbFormat (new_patient ?C ?R)))"
  let ?pm = "new_patient ?C ?R"
  have d: "createPatient database_env ?C ?E ?R initial_state =
      (Inr ?pd, initial_state
         \<lparr>supabase_cache := Some (createClient ''https://example.test'' ''key''),
          patients := [new_row ?E (toDbFormat (new_patient ?C ?R))]\<rparr>)"
    by (simp add: createPatient_def example_modes Let_def with_supabase_def database_env_client
        insert_single_def single_def createPatient_db_def)
      (simp add: initial_state_def)
  have m: "createPatient memory_env ?C ?E ?R initial_state =
      (Inr ?pm, initial_state\<lparr>memoryPatients := [(p_id ?pm, ?pm)]\<rparr>)"
    by (simp add: createPatient_def example_modes Let_def initial_state_def)
  have f: "\<not> isNoDB database_env \<Longrightarrow> fault ?E' = None"
    "\<not> isNoDB memory_env \<Longrightarrow> fault ?E' = None"
    by simp_all
  have vd: "p_id ?pd = ''patient-42''" "p_history ?pd = ''flu, cold''"
    "p_date ?pd = ''2024-01-02''" "p_biopsyConfirmed ?pd = None"
    by (simp_all add: fromDbFormat_def new_row_def toDbFormat_def new_patient_def
        string_of_nat_42 truthy_str_def split_T_0_def or_none_bool_def)
  have vm: "p_id ?pm = ''patient-42''" "p_biopsyConfirmed ?pm = Some False"
    by (simp_all add: new_patient_def string_of_nat_42)
  from create_then_get [OF d f(1)] create_then_get [OF m f(2)] d m vd vm
  show ?thesis by metis
qed

subsection \<open>Update\<close>

text \<open>
  C3 (as amended). For every stored patient and every update payload, \<^verbatim>\<open>updatePatient\<close>
  leaves the patient stored under the identifier, with the same id, date, index,
  biopsyConfirmed, doctor and createdAt as before, the same name when the payload has no
  name and the same history when it has no medicalHistory, in both storage modes. When
  the update succeeds the patient returned is the stored one and its updatedAt is the
  time of the update (\<^verbatim>\<open>new Date()\<close> in memory, the table's update trigger in database
  mode); when it fails the map and the table are as before.
\<close>

theorem update_frame:
  assumes "stored env st (q_id u) = Some old"
    and "updatePatient env t_now e u st = (res, st')"
  shows "\<exists>new. stored env st' (q_id u) = Some new \<and>
           p_id new = p_id old \<and> p_date new = p_date old \<and> p_index new = p_index old \<and>
           p_biopsyConfirmed new = p_biopsyConfirmed old \<and> p_doctor new = p_doctor old \<and>
           p_createdAt new = p_createdAt old \<and>
           (q_name u = None \<longrightarrow> p_name new = p_name old) \<and>
           (q_medicalHistory u = None \<longrightarrow> p_history new = p_history old) \<and>
           (case res of
              Inr p' \<Rightarrow> p' = new \<and>
                p_updatedAt new = (if isNoDB env then Date_ms t_now else Date_of (db_now e))
            | Inl err \<Rightarrow> memoryPatients st' = memoryPatients st \<and> patients st' = patients st)"
proof (cases "isNoDB env")
  case True
  with assms show ?thesis
    by (auto simp: stored_def updatePatient_def Let_def update_conv')
next
  case False
  from assms(1) False obtain r where m: "matching (q_id u) (patients st) = [r]"
    and old: "old = fromDbFormat r"
    by (auto simp: stored_def split: list.splits)
  show ?thesis
  proof (cases "getSupabase env st")
    case (Pair g st1)
    show ?thesis
    proof (cases g)
      case (Inl err)
      with Pair have "st1 = st" by (simp add: getSupabase_throws)
      with Pair Inl assms(2) False have "res = Inl err" "st' = st"
        by (simp_all add: updatePatient_def with_supabase_def)
      with m False show ?thesis
        by (simp add: stored_def old)
    next
      case (Inr c)
      from Pair have t1: "patients st1 = patients st" "memoryPatients st1 = memoryPatients st"
        using getSupabase_store [of env st] by simp_all
      from Pair Inr assms(2) False obtain resp t' where
        upd: "update_single e (updatePayload u) (q_id u) (patients st) = (resp, t')"
        and res: "res = updatePatient_db resp" and st': "st' = st1\<lparr>patients := t'\<rparr>"
        by (auto simp: updatePatient_def with_supabase_def t1 split: prod.splits)
      from update_single_cases [OF m updatePayload_keys(1) upd]
      show ?thesis
      proof
        assume "resp = single [apply_update e (updatePayload u) r] \<and>
          matching (q_id u) t' = [apply_update e (updatePayload u) r]"
        then show ?thesis using False
          by (simp add: stored_def st' res old updatePatient_db_def single_def fromDbFormat_def
              apply_update_def updatePayload_keys)
      next
        assume b: "error resp \<noteq> None \<and> t' = patients st"
        then have "res = Inl not_found"
          by (auto simp: res updatePatient_db_def split: option.splits)
        with b m show ?thesis using False
          by (simp add: stored_def st' old t1)
      qed
    qed
  qed
qed

theorem update_frame_witness:
  "stored memory_env
     (initial_state\<lparr>memoryPatients := [(''patient-1'', \<lparr>p_id = ''patient-1'', p_name = ''Ann'', p_history = ''flu'', p_date = ''2024-01-02'',
        p_index = ''1'', p_biopsyConfirmed = Some False, p_doctor = Some ''Unknown'',
        p_createdAt = Date_ms 1, p_updatedAt = Date_ms 1\<rparr>)]\<rparr>)
     ''patient-1''
     = Some \<lparr>p_id = ''patient-1'', p_name = ''Ann'', p_history = ''flu'', p_date = ''2024-01-02'',
        p_index = ''1'', p_biopsyConfirmed = Some False, p_doctor = Some ''Unknown'',
        p_createdAt = Date_ms 1, p_updatedAt = Date_ms 1\<rparr> \<and>
   q_name \<lparr>q_id = ''patient-1'', q_name = None, q_medicalHistory = None\<rparr> = None \<and>
   q_medicalHistory \<lparr>q_id = ''patient-1'', q_name = None, q_medicalHistory = None\<rparr> = None \<and>
   (\<exists>new. stored memory_env
       (snd (updatePatient memory_env 9 \<lparr>fault = None, new_uuid = ''u2'', db_now = ''t1''\<rparr>
          \<lparr>q_id = ''patient-1'', q_name = None, q_medicalHistory = None\<rparr>
          (initial_state\<lparr>memoryPatients := [(''patient-1'', \<lparr>p_id = ''patient-1'', p_name = ''Ann'', p_history = ''flu'', p_date = ''2024-01-02'',
        p_index = ''1'', p_biopsyConfirmed = Some False, p_doctor = Some ''Unknown'',
        p_createdAt = Date_ms 1, p_updatedAt = Date_ms 1\<rparr>)]\<rparr>)))
       ''patient-1'' = Some new \<and>
      p_id new = ''patient-1'' \<and> p_name new = ''Ann'' \<and> p_history new = ''flu'' \<and>
      p_date new = ''2024-01-02'' \<and> p_index new = ''1'' \<and>
      p_biopsyConfirmed new = Some False \<and> p_doctor new = Some ''Unknown'' \<and>
      p_createdAt new = Date_ms 1 \<and> p_updatedAt new = Date_ms 9) \<and>
   (\<exists>old new. stored database_env
       (initial_state\<lparr>patients := [\<lparr>r_id = ''u1'', r_patient_id = ''patient-1'', r_name = ''Ann'', r_history = ''flu'',
        r_date = ''2024-01-02'', r_index = ''1'', r_biopsy_confirmed = Some True,
        r_doctor = Some ''Unknown'', r_created_at = ''t0'', r_updated_at = ''t0''\<rparr>]\<rparr>) ''patient-1'' = Some old \<and>
      stored database_env
       (snd (updatePatient database_env 9 \<lparr>fault = None, new_uuid = ''u2'', db_now = ''t1''\<rparr>
          \<lparr>q_id = ''patient-1'', q_name = Some ''Bea'', q_medicalHistory = None\<rparr>
          (initial_state\<lparr>patients := [\<lparr>r_id = ''u1'', r_patient_id = ''patient-1'', r_name = ''Ann'', r_history = ''flu'',
        r_date = ''2024-01-02'', r_index = ''1'', r_biopsy_confirmed = Some True,
        r_doctor = Some ''Unknown'', r_created_at = ''t0'', r_updated_at = ''t0''\<rparr>]\<rparr>)))
       ''patient-1'' = Some new \<and>
      p_id new = p_id old \<and> p_history new = p_history old \<and> p_date new = p_date old \<and>
      p_index new = p_index old \<and> p_biopsyConfirmed new = p_biopsyConfirmed old \<and>
      p_doctor new = p_doctor old \<and> p_createdAt new = p_createdAt old \<and>
      p_updatedAt new = Date_of ''t1'')"
proof -
  let ?P = "\<lparr>p_id = ''patient-1'', p_name = ''Ann'', p_history = ''flu'', p_date = ''2024-01-02'',
        p_index = ''1'', p_biopsyConfirmed = Some False, p_doctor = Some ''Unknown'',
        p_createdAt = Date_ms 1, p_updatedAt = Date_ms 1\<rparr>"
  let ?S = "initial_state\<lparr>memoryPatients := [(''patient-1'', \<lparr>p_id = ''patient-1'', p_name = ''Ann'', p_history = ''flu'', p_date = ''2024-01-02'',
        p_index = ''1'', p_biopsyConfirmed = Some False, p_doctor = Some ''Unknown'',
        p_createdAt = Date_ms 1, p_updatedAt = Date_ms 1\<rparr>)]\<rparr>"
  let ?U = "\<lparr>q_id = ''patient-1'', q_name = None, q_medicalHistory = None\<rparr>"
  let ?E = "\<lparr>fault = None, new_uuid = ''u2'', db_now = ''t1''\<rparr>"
  let ?X = "updatePatient memory_env 9 ?E ?U ?S"
  have h1: "stored memory_env ?S (q_id ?U) = Some ?P"
    by (simp add: stored_def example_modes initial_state_def)
  have h2: "?X = (fst ?X, snd ?X)" by simp
  have ok: "\<exists>p'. fst ?X = Inr p'"
    by (simp add: updatePatient_def example_modes Let_def initial_state_def)
  let ?R = "\<lparr>r_id = ''u1'', r_patient_id = ''patient-1'', r_name = ''Ann'', r_history = ''flu'',
        r_date = ''2024-01-02'', r_index = ''1'', r_biopsy_confirmed = Some True,
        r_doctor = Some ''Unknown'', r_created_at = ''t0'', r_updated_at = ''t0''\<rparr>"
  let ?D = "initial_state\<lparr>patients := [\<lparr>r_id = ''u1'', r_patient_id = ''patient-1'', r_name = ''Ann'', r_history = ''flu'',
        r_date = ''2024-01-02'', r_index = ''1'', r_biopsy_confirmed = Some True,
        r_doctor = Some ''Unknown'', r_created_at = ''t0'', r_updated_at = ''t0''\<rparr>]\<rparr>"
  let ?V = "\<lparr>q_id = ''patient-1'', q_name = Some ''Bea'', q_medicalHistory = None\<rparr>"
  let ?Y = "updatePatient database_env 9 ?E ?V ?D"
  have d1: "stored database_env ?D (q_id ?V) = Some (fromDbFormat ?R)"
    by (simp add: stored_def example_modes matching_def initial_state_def)
  have d2: "?Y = (fst ?Y, snd ?Y)" by simp
  have dok: "\<exists>p'. fst ?Y = Inr p'"
    by (simp add: updatePatient_def example_modes with_supabase_def database_env_client
        update_single_def updatePayload_def empty_update_def truthy_str_def Let_def
        matching_def single_def updatePatient_db_def)
  have mem: "\<exists>new. stored memory_env (snd ?X) ''patient-1'' = Some new \<and>
      p_id new = ''patient-1'' \<and> p_name new = ''Ann'' \<and> p_history new = ''flu'' \<and>
      p_date new = ''2024-01-02'' \<and> p_index new = ''1'' \<and>
      p_biopsyConfirmed new = Some False \<and> p_doctor new = Some ''Unknown'' \<and>
      p_createdAt new = Date_ms 1 \<and> p_updatedAt new = Date_ms 9"
    using update_frame [OF h1 h2] ok by (auto simp: example_modes)
  have db: "\<exists>old new. stored database_env ?D ''patient-1'' = Some old \<and>
      stored database_env (snd ?Y) ''patient-1'' = Some new \<and>
      p_id new = p_id old \<and> p_history new = p_history old \<and> p_date new = p_date old \<and>
      p_index new = p_index old \<and> p_biopsyConfirmed new = p_biopsyConfirmed old \<and>
      p_doctor new = p_doctor old \<and> p_createdAt new = p_createdAt old \<and>
      p_updatedAt new = Date_of ''t1''"
    using update_frame [OF d1 d2] dok d1 by (auto simp: example_modes)
  from h1 mem db show ?thesis by simp
qed

text \<open>
  C3 as stated fails on updatedAt, in both modes: the update of a stored patient at
  another time than its last update changes the stored updatedAt.
\<close>

theorem update_frame_counterexample:
  "map_option p_updatedAt (stored memory_env
     (initial_state\<lparr>memoryPatients := [(''patient-1'', \<lparr>p_id = ''patient-1'', p_name = ''Ann'', p_history = ''flu'', p_date = ''2024-01-02'',
        p_index = ''1'', p_biopsyConfirmed = Some False, p_doctor = Some ''Unknown'',
        p_createdAt = Date_ms 1, p_updatedAt = Date_ms 1\<rparr>)]\<rparr>)
     ''patient-1'') = Some (Date_ms 1) \<and>
   map_option p_updatedAt (stored memory_env
     (snd (updatePatient memory_env 9 \<lparr>fault = None, new_uuid = ''u2'', db_now = ''t1''\<rparr>
        \<lparr>q_id = ''patient-1'', q_name = Some ''Bea'', q_medicalHistory = None\<rparr>
        (initial_state\<lparr>memoryPatients := [(''patient-1'', \<lparr>p_id = ''patient-1'', p_name = ''Ann'', p_history = ''flu'', p_date = ''2024-01-02'',
        p_index = ''1'', p_biopsyConfirmed = Some False, p_doctor = Some ''Unknown'',
        p_createdAt = Date_ms 1, p_updatedAt = Date_ms 1\<rparr>)]\<rparr>)))
     ''patient-1'') = Some (Date_ms 9) \<and>
   map_option p_updatedAt (stored database_env
     (initial_state\<lparr>patients := [\<lparr>r_id = ''u1'', r_patient_id = ''patient-1'', r_name = ''Ann'', r_history = ''flu'',
        r_date = ''2024-01-02'', r_index = ''1'', r_biopsy_confirmed = Some True,
        r_doctor = Some ''Unknown'', r_created_at = ''t0'', r_updated_at = ''t0''\<rparr>]\<rparr>)
     ''patient-1'') = Some (Date_of ''t0'') \<and>
   map_option p_updatedAt (stored database_env
     (snd (updatePatient database_env 9 \<lparr>fault = None, new_uuid = ''u2'', db_now = ''t1''\<rparr>
        \<lparr>q_id = ''patient-1'', q_name = Some ''Bea'', q_medicalHistory = None\<rparr>
        (initial_state\<lparr>patients := [\<lparr>r_id = ''u1'', r_patient_id = ''patient-1'', r_name = ''Ann'', r_history = ''flu'',
        r_date = ''2024-01-02'', r_index = ''1'', r_biopsy_confirmed = Some True,
        r_doctor = Some ''Unknown'', r_created_at = ''t0'', r_updated_at = ''t0''\<rparr>]\<rparr>)))
     ''patient-1'') = Some (Date_of ''t1'')"
  by (simp add: stored_def example_modes updatePatient_def Let_def truthy_str_def
      with_supabase_def database_env_client
      update_single_def updatePayload_def empty_update_def matching_def apply_update_def
      single_def updatePatient_db_def fromDbFormat_def)

subsection \<open>Deleting an absent patient\<close>

text \<open>
  C4. For every identifier that is not a key of the store, \<^verbatim>\<open>deletePatient\<close> throws
  the error \<open>Patient not found\<close> with HTTP status 404 and leaves the map and the table
  as they are, in the in-memory mode and, given the database client, in database mode,
  whatever the client answers.
\<close>

theorem delete_absent:
  assumes "\<not> present env st pid"
    and "\<not> isNoDB env \<Longrightarrow> fst (getSupabase env st) = Inr supabase"
  shows "fst (deletePatient env e pid st) = Inl (createError ''Patient not found'' 404) \<and>
         memoryPatients (snd (deletePatient env e pid st)) = memoryPatients st \<and>
         patients (snd (deletePatient env e pid st)) = patients st"
proof (cases "isNoDB env")
  case True
  with assms(1) show ?thesis
    by (simp add: present_def deletePatient_def map_of_absent not_found_def)
next
  case False
  with assms(2) obtain st1 where g: "getSupabase env st = (Inr supabase, st1)"
    by (cases "getSupabase env st") auto
  then have t1: "patients st1 = patients st" "memoryPatients st1 = memoryPatients st"
    using getSupabase_store [of env st] by simp_all
  from assms(1) False have "matching pid (patients st) = []"
    by (simp add: present_def matching_absent)
  with False g t1 show ?thesis
    by (auto simp: deletePatient_def with_supabase_def delete_single_def deletePatient_db_def
        not_found_def failed_def single_def split: option.splits)
qed

theorem delete_absent_witness:
  "\<not> present memory_env
      (initial_state\<lparr>memoryPatients := [(''patient-1'', \<lparr>p_id = ''patient-1'', p_name = ''Ann'', p_history = ''flu'', p_date = ''2024-01-02'',
        p_index = ''1'', p_biopsyConfirmed = Some False, p_doctor = Some ''Unknown'',
        p_createdAt = Date_ms 1, p_updatedAt = Date_ms 1\<rparr>)]\<rparr>) ''patient-7'' \<and>
   fst (deletePatient memory_env \<lparr>fault = None, new_uuid = ''u2'', db_now = ''t1''\<rparr> ''patient-7''
      (initial_state\<lparr>memoryPatients := [(''patient-1'', \<lparr>p_id = ''patient-1'', p_name = ''Ann'', p_history = ''flu'', p_date = ''2024-01-02'',
        p_index = ''1'', p_biopsyConfirmed = Some False, p_doctor = Some ''Unknown'',
        p_createdAt = Date_ms 1, p_updatedAt = Date_ms 1\<rparr>)]\<rparr>))
     = Inl (createError ''Patient not found'' 404) \<and>
   memoryPatients (snd (deletePatient memory_env \<lparr>fault = None, new_uuid = ''u2'', db_now = ''t1''\<rparr> ''patient-7''
      (initial_state\<lparr>memoryPatients := [(''patient-1'', \<lparr>p_id = ''patient-1'', p_name = ''Ann'', p_history = ''flu'', p_date = ''2024-01-02'',
        p_index = ''1'', p_biopsyConfirmed = Some False, p_doctor = Some ''Unknown'',
        p_createdAt = Date_ms 1, p_updatedAt = Date_ms 1\<rparr>)]\<rparr>)))
     = [(''patient-1'', \<lparr>p_id = ''patient-1'', p_name = ''Ann'', p_history = ''flu'', p_date = ''2024-01-02'',
        p_index = ''1'', p_biopsyConfirmed = Some False, p_doctor = Some ''Unknown'',
        p_createdAt = Date_ms 1, p_updatedAt = Date_ms 1\<rparr>)] \<and>
   \<not> present database_env
      (initial_state\<lparr>patients := [\<lparr>r_id = ''u1'', r_patient_id = ''patient-1'', r_name = ''Ann'', r_history = ''flu'',
        r_date = ''2024-01-02'', r_index = ''1'', r_biopsy_confirmed = Some True,
        r_doctor = Some ''Unknown'', r_created_at = ''t0'', r_updated_at = ''t0''\<rparr>]\<rparr>) ''patient-7'' \<and>
   fst (getSupabase database_env
      (initial_state\<lparr>patients := [\<lparr>r_id = ''u1'', r_patient_id = ''patient-1'', r_name = ''Ann'', r_history = ''flu'',
        r_date = ''2024-01-02'', r_index = ''1'', r_biopsy_confirmed = Some True,
        r_doctor = Some ''Unknown'', r_created_at = ''t0'', r_updated_at = ''t0''\<rparr>]\<rparr>)) = Inr (createClient ''https://example.test'' ''key'') \<and>
   fst (deletePatient database_env \<lparr>fault = None, new_uuid = ''u2'', db_now = ''t1''\<rparr> ''patient-7''
      (initial_state\<lparr>patients := [\<lparr>r_id = ''u1'', r_patient_id = ''patient-1'', r_name = ''Ann'', r_history = ''flu'',
        r_date = ''2024-01-02'', r_index = ''1'', r_biopsy_confirmed = Some True,
        r_doctor = Some ''Unknown'', r_created_at = ''t0'', r_updated_at = ''t0''\<rparr>]\<rparr>))
     = Inl (createError ''Patient not found'' 404) \<and>
   patients (snd (deletePatient database_env \<lparr>fault = None, new_uuid = ''u2'', db_now = ''t1''\<rparr> ''patient-7''
      (initial_state\<lparr>patients := [\<lparr>r_id = ''u1'', r_patient_id = ''patient-1'', r_name = ''Ann'', r_history = ''flu'',
        r_date = ''2024-01-02'', r_index = ''1'', r_biopsy_confirmed = Some True,
        r_doctor = Some ''Unknown'', r_created_at = ''t0'', r_updated_at = ''t0''\<rparr>]\<rparr>)))
     = [\<lparr>r_id = ''u1'', r_patient_id = ''patient-1'', r_name = ''Ann'', r_history = ''flu'',
        r_date = ''2024-01-02'', r_index = ''1'', r_biopsy_confirmed = Some True,
        r_doctor = Some ''Unknown'', r_created_at = ''t0'', r_updated_at = ''t0''\<rparr>]"
proof -
  let ?M = "initial_state\<lparr>memoryPatients := [(''patient-1'', \<lparr>p_id = ''patient-1'', p_name = ''Ann'', p_history = ''flu'', p_date = ''2024-01-02'',
        p_index = ''1'', p_biopsyConfirmed = Some False, p_doctor = Some ''Unknown'',
        p_createdAt = Date_ms 1, p_updatedAt = Date_ms 1\<rparr>)]\<rparr>"
  let ?D = "initial_state\<lparr>patients := [\<lparr>r_id = ''u1'', r_patient_id = ''patient-1'', r_name = ''Ann'', r_history = ''flu'',
        r_date = ''2024-01-02'', r_index = ''1'', r_biopsy_confirmed = Some True,
        r_doctor = Some ''Unknown'', r_created_at = ''t0'', r_updated_at = ''t0''\<rparr>]\<rparr>"
  let ?E = "\<lparr>fault = None, new_uuid = ''u2'', db_now = ''t1''\<rparr>"
  have m: "\<not> present memory_env ?M ''patient-7''"
    and d: "\<not> present database_env ?D ''patient-7''"
    by (simp_all add: present_def example_modes initial_state_def)
  have c: "\<not> isNoDB database_env \<Longrightarrow>
      fst (getSupabase database_env ?D) = Inr (createClient ''https://example.test'' ''key'')"
    "\<not> isNoDB memory_env \<Longrightarrow>
      fst (getSupabase memory_env ?M) = Inr (createClient ''https://example.test'' ''key'')"
    by (simp_all add: database_env_client example_modes)
  have s: "memoryPatients ?M = [(''patient-1'', \<lparr>p_id = ''patient-1'', p_name = ''Ann'', p_history = ''flu'', p_date = ''2024-01-02'',
        p_index = ''1'', p_biopsyConfirmed = Some False, p_doctor = Some ''Unknown'',
        p_createdAt = Date_ms 1, p_updatedAt = Date_ms 1\<rparr>)]" "patients ?D = [\<lparr>r_id = ''u1'', r_patient_id = ''patient-1'', r_name = ''Ann'', r_history = ''flu'',
        r_date = ''2024-01-02'', r_index = ''1'', r_biopsy_confirmed = Some True,
        r_doctor = Some ''Unknown'', r_created_at = ''t0'', r_updated_at = ''t0''\<rparr>]"
    by (simp_all add: initial_state_def)
  from delete_absent [OF m c(2), of ?E] delete_absent [OF d c(1), of ?E] m d c(1) s
  show ?thesis by (simp add: example_modes)
qed

subsection \<open>Identifiers in the in-memory mode\<close>

text \<open>
  C9. In database-less mode \<^verbatim>\<open>createPatient\<close> gives the new patient the identifier
  \<open>patient-<milliseconds>\<close> and the index \<open><milliseconds>\<close> of the same clock read, and
  stores it in the map under that identifier without any check: a second creation in the
  same millisecond gets the same identifier, and its patient takes the place of the first
  one in the map, whose keys stay as they were.
\<close>

theorem same_millisecond_creation:
  assumes "isNoDB env"
    and "createPatient env clk1 e1 req1 st = (res1, st1)"
    and "createPatient env clk2 e2 req2 st1 = (res2, st2)"
    and "now clk2 = now clk1"
  shows "\<exists>p1 p2. res1 = Inr p1 \<and> res2 = Inr p2 \<and>
           p_id p1 = ''patient-'' @ string_of_nat (now clk1) \<and>
           p_index p1 = string_of_nat (now clk1) \<and>
           memoryPatients st1 = AList.update (p_id p1) p1 (memoryPatients st) \<and>
           map_of (memoryPatients st1) (p_id p1) = Some p1 \<and>
           p_id p2 = p_id p1 \<and>
           memoryPatients st2 = AList.update (p_id p1) p2 (memoryPatients st1) \<and>
           map_of (memoryPatients st2) (p_id p1) = Some p2 \<and>
           map fst (memoryPatients st2) = map fst (memoryPatients st1)"
proof -
  let ?p1 = "new_patient clk1 req1" and ?p2 = "new_patient clk2 req2"
  from assms(1,2) have r1: "res1 = Inr ?p1"
    and s1: "memoryPatients st1 = AList.update (p_id ?p1) ?p1 (memoryPatients st)"
    by (auto simp: createPatient_def Let_def)
  from assms(1,3) have r2: "res2 = Inr ?p2"
    and s2: "memoryPatients st2 = AList.update (p_id ?p2) ?p2 (memoryPatients st1)"
    by (auto simp: createPatient_def Let_def)
  have ids: "p_id ?p2 = p_id ?p1" using assms(4) by (simp add: new_patient_def)
  have "p_id ?p1 \<in> set (map fst (memoryPatients st1))"
    unfolding s1 by (rule update_key_in)
  then have keys: "map fst (memoryPatients st2) = map fst (memoryPatients st1)"
    unfolding s2 ids by (rule update_present_keys)
  show ?thesis
    using r1 r2 s1 s2 ids keys
    by (auto simp: update_conv' new_patient_def)
qed

theorem same_millisecond_creation_witness:
  "isNoDB memory_env \<and>
   now \<lparr>now = 42, iso_string = ''2024-01-02T03:04:06.000Z'', created_now = 43, updated_now = 43\<rparr>
     = now \<lparr>now = 42, iso_string = ''2024-01-02T03:04:05.678Z'', created_now = 42, updated_now = 42\<rparr> \<and>
   (\<exists>p1 p2.
      fst (createPatient memory_env
             \<lparr>now = 42, iso_string = ''2024-01-02T03:04:05.678Z'', created_now = 42, updated_now = 42\<rparr>
             \<lparr>fault = None, new_uuid = [], db_now = []\<rparr>
             \<lparr>c_name = ''Ann'', c_medicalHistory = Some [''flu'', ''cold'']\<rparr>
             initial_state) = Inr p1 \<and>
      p_id p1 = ''patient-42'' \<and> p_index p1 = ''42'' \<and> p_name p1 = ''Ann'' \<and>
      p_id p2 = ''patient-42'' \<and> p_name p2 = ''Bob'' \<and>
      memoryPatients
        (snd (createPatient memory_env
             \<lparr>now = 42, iso_string = ''2024-01-02T03:04:06.000Z'', created_now = 43, updated_now = 43\<rparr>
             \<lparr>fault = None, new_uuid = [], db_now = []\<rparr>
             \<lparr>c_name = ''Bob'', c_medicalHistory = None\<rparr>
             (snd (createPatient memory_env
               \<lparr>now = 42, iso_string = ''2024-01-02T03:04:05.678Z'', created_now = 42, updated_now = 42\<rparr>
               \<lparr>fault = None, new_uuid = [], db_now = []\<rparr>
               \<lparr>c_name = ''Ann'', c_medicalHistory = Some [''flu'', ''cold'']\<rparr>
               initial_state)))) = [(''patient-42'', p2)])"
proof -
  let ?CA = "\<lparr>now = 42, iso_string = ''2024-01-02T03:04:05.678Z'', created_now = 42, updated_now = 42\<rparr>"
  let ?CB = "\<lparr>now = 42, iso_string = ''2024-01-02T03:04:06.000Z'', created_now = 43, updated_now = 43\<rparr>"
  let ?E = "\<lparr>fault = None, new_uuid = [], db_now = []\<rparr>"
  let ?RA = "\<lparr>c_name = ''Ann'', c_medicalHistory = Some [''flu'', ''cold'']\<rparr>"
  let ?RB = "\<lparr>c_name = ''Bob'', c_medicalHistory = None\<rparr>"
  let ?X1 = "createPatient memory_env ?CA ?E ?RA initial_state"
  let ?X2 = "createPatient memory_env ?CB ?E ?RB (snd ?X1)"
  note h1 = example_modes(2)
  have h2: "?X1 = (fst ?X1, snd ?X1)" by simp
  have h3: "?X2 = (fst ?X2, snd ?X2)" by simp
  have h4: "now ?CB = now ?CA" by simp
  note n = string_of_nat_42
  from same_millisecond_creation [OF h1 h2 h3 h4] obtain p1 p2 where
    a: "fst ?X1 = Inr p1" "fst ?X2 = Inr p2" "p_id p1 = ''patient-'' @ string_of_nat 42"
       "p_index p1 = string_of_nat 42" "p_id p2 = p_id p1"
       "memoryPatients (snd ?X1) = AList.update (p_id p1) p1 (memoryPatients initial_state)"
       "memoryPatients (snd ?X2) = AList.update (p_id p1) p2 (memoryPatients (snd ?X1))"
    by auto
  have b: "p_name p1 = ''Ann''" "p_name p2 = ''Bob''"
    using a(1,2) by (auto simp: createPatient_def Let_def example_modes new_patient_def)
  have i: "memoryPatients initial_state = []" by (simp add: initial_state_def)
  show ?thesis
    using h1 h4 a b n i by auto
qed

subsection \<open>Row format and application format\<close>

text \<open>
  C10. Converting an application patient to a row and back, and a row to an application
  patient and back to an insert, keeps the identifier, name, history, date and index. The
  optional fields are not kept: for a patient whose biopsyConfirmed is false,
  \<^verbatim>\<open>toDbFormat\<close> stores \<open>null\<close>; \<^verbatim>\<open>fromDbFormat\<close> maps a \<open>null\<close> biopsy_confirmed and
  a \<open>null\<close> doctor to \<open>undefined\<close>; so such a patient comes back with biopsyConfirmed
  undefined, not false.
\<close>

theorem format_round_trip:
  "p_id (fromDbFormat (new_row e (toDbFormat p))) = p_id p \<and>
   p_name (fromDbFormat (new_row e (toDbFormat p))) = p_name p \<and>
   p_history (fromDbFormat (new_row e (toDbFormat p))) = p_history p \<and>
   p_date (fromDbFormat (new_row e (toDbFormat p))) = p_date p \<and>
   p_index (fromDbFormat (new_row e (toDbFormat p))) = p_index p \<and>
   i_patient_id (toDbFormat (fromDbFormat r)) = r_patient_id r \<and>
   i_name (toDbFormat (fromDbFormat r)) = r_name r \<and>
   i_history (toDbFormat (fromDbFormat r)) = r_history r \<and>
   i_date (toDbFormat (fromDbFormat r)) = r_date r \<and>
   i_index (toDbFormat (fromDbFormat r)) = r_index r \<and>
   (p_biopsyConfirmed p = Some False \<longrightarrow>
      i_biopsy_confirmed (toDbFormat p) = None \<and>
      p_biopsyConfirmed (fromDbFormat (new_row e (toDbFormat p))) = None \<and>
      p_biopsyConfirmed (fromDbFormat (new_row e (toDbFormat p))) \<noteq> p_biopsyConfirmed p) \<and>
   (r_biopsy_confirmed r = None \<longrightarrow> p_biopsyConfirmed (fromDbFormat r) = None) \<and>
   (r_doctor r = None \<longrightarrow> p_doctor (fromDbFormat r) = None)"
  by (simp add: fromDbFormat_def toDbFormat_def new_row_def or_none_bool_def or_none_str_def)

theorem format_round_trip_witness:
  "p_biopsyConfirmed \<lparr>p_id = ''patient-1'', p_name = ''Ann'', p_history = ''flu'',
       p_date = ''2024-01-02'', p_index = ''1'', p_biopsyConfirmed = Some False,
       p_doctor = Some ''Unknown'', p_createdAt = Date_ms 1, p_updatedAt = Date_ms 1\<rparr> = Some False \<and>
   i_biopsy_confirmed (toDbFormat \<lparr>p_id = ''patient-1'', p_name = ''Ann'', p_history = ''flu'',
       p_date = ''2024-01-02'', p_index = ''1'', p_biopsyConfirmed = Some False,
       p_doctor = Some ''Unknown'', p_createdAt = Date_ms 1, p_updatedAt = Date_ms 1\<rparr>) = None \<and>
   p_biopsyConfirmed (fromDbFormat (new_row \<lparr>fault = None, new_uuid = ''u1'', db_now = ''t1''\<rparr>
     (toDbFormat \<lparr>p_id = ''patient-1'', p_name = ''Ann'', p_history = ''flu'',
       p_date = ''2024-01-02'', p_index = ''1'', p_biopsyConfirmed = Some False,
       p_doctor = Some ''Unknown'', p_createdAt = Date_ms 1, p_updatedAt = Date_ms 1\<rparr>))) = None \<and>
   p_id (fromDbFormat (new_row \<lparr>fault = None, new_uuid = ''u1'', db_now = ''t1''\<rparr>
     (toDbFormat \<lparr>p_id = ''patient-1'', p_name = ''Ann'', p_history = ''flu'',
       p_date = ''2024-01-02'', p_index = ''1'', p_biopsyConfirmed = Some False,
       p_doctor = Some ''Unknown'', p_createdAt = Date_ms 1, p_updatedAt = Date_ms 1\<rparr>))) = ''patient-1'' \<and>
   r_biopsy_confirmed \<lparr>r_id = ''u1'', r_patient_id = ''patient-1'', r_name = ''Ann'',
       r_history = ''flu'', r_date = ''2024-01-02'', r_index = ''1'', r_biopsy_confirmed = None,
       r_doctor = None, r_created_at = ''t0'', r_updated_at = ''t0''\<rparr> = None \<and>
   r_doctor \<lparr>r_id = ''u1'', r_patient_id = ''patient-1'', r_name = ''Ann'',
       r_history = ''flu'', r_date = ''2024-01-02'', r_index = ''1'', r_biopsy_confirmed = None,
       r_doctor = None, r_created_at = ''t0'', r_updated_at = ''t0''\<rparr> = None \<and>
   p_biopsyConfirmed (fromDbFormat \<lparr>r_id = ''u1'', r_patient_id = ''patient-1'', r_name = ''Ann'',
       r_history = ''flu'', r_date = ''2024-01-02'', r_index = ''1'', r_biopsy_confirmed = None,
       r_doctor = None, r_created_at = ''t0'', r_updated_at = ''t0''\<rparr>) = None \<and>
   p_doctor (fromDbFormat \<lparr>r_id = ''u1'', r_patient_id = ''patient-1'', r_name = ''Ann'',
       r_history = ''flu'', r_date = ''2024-01-02'', r_index = ''1'', r_biopsy_confirmed = None,
       r_doctor = None, r_created_at = ''t0'', r_updated_at = ''t0''\<rparr>) = None \<and>
   i_patient_id (toDbFormat (fromDbFormat \<lparr>r_id = ''u1'', r_patient_id = ''patient-1'',
       r_name = ''Ann'', r_history = ''flu'', r_date = ''2024-01-02'', r_index = ''1'',
       r_biopsy_confirmed = None, r_doctor = None, r_created_at = ''t0'',
       r_updated_at = ''t0''\<rparr>)) = ''patient-1''"
  using format_round_trip
    [of "\<lparr>fault = None, new_uuid = ''u1'', db_now = ''t1''\<rparr>"
        "\<lparr>p_id = ''patient-1'', p_name = ''Ann'', p_history = ''flu'',
          p_date = ''2024-01-02'', p_index = ''1'', p_biopsyConfirmed = Some False,
          p_doctor = Some ''Unknown'', p_createdAt = Date_ms 1, p_updatedAt = Date_ms 1\<rparr>"
        "\<lparr>r_id = ''u1'', r_patient_id = ''patient-1'', r_name = ''Ann'',
          r_history = ''flu'', r_date = ''2024-01-02'', r_index = ''1'', r_biopsy_confirmed = None,
          r_doctor = None, r_created_at = ''t0'', r_updated_at = ''t0''\<rparr>"]
  by simp

section \<open>Properties of the upload service\<close>

subsection \<open>Auxiliary facts\<close>

lemma getSupabase_disk:
  "getSupabase env (st\<lparr>disk := d\<rparr>) =
     (fst (getSupabase env st), (snd (getSupabase env st))\<lparr>disk := d\<rparr>)"
  by (auto simp: getSupabase_def split: option.splits)

lemma getSupabase_frame:
  "disk (snd (getSupabase env st)) = disk st"
  "objects (snd (getSupabase env st)) = objects st"
  "requests (snd (getSupabase env st)) = requests st"
  by (auto simp: getSupabase_def split: option.splits)

lemma uploadToSupabase_ok:
  assumes "fst (getSupabase env st) = Inr client"
  shows "uploadToSupabase rt env None filename buffer st =
     (Inr (getPublicUrl rt client BUCKET_NAME filename),
      (snd (getSupabase env st))
        \<lparr>requests := requests st @ [Upload BUCKET_NAME filename buffer (getContentType rt filename) True],
         objects := (objects st)((BUCKET_NAME, filename) \<mapsto> (buffer, getContentType rt filename))\<rparr>)"
proof -
  obtain b where g: "getSupabase env st = (Inr client, b)"
    using assms by (cases "getSupabase env st") auto
  then have "requests b = requests st" "objects b = objects st"
    using getSupabase_frame [of env st] by simp_all
  with g show ?thesis
    by (simp add: uploadToSupabase_def Let_def)
qed

lemma strip_prefix_Some: "strip_prefix p s = Some r \<longleftrightarrow> s = p @ r"
  by (auto simp: strip_prefix_def) (metis append_take_drop_id)

lemma semicolon_no_letter: "\<not> is_letter CHR '';''"
  by (simp add: is_letter_def)

lemma takeWhile_letters:
  "list_all is_letter l \<Longrightarrow> takeWhile is_letter (l @ CHR '';'' # r) = l"
  by (induction l) (simp_all add: semicolon_no_letter)

lemma dropWhile_letters:
  "list_all is_letter l \<Longrightarrow> dropWhile is_letter (l @ CHR '';'' # r) = CHR '';'' # r"
  by (induction l) (simp_all add: semicolon_no_letter)

lemma prefix_take: "prefix t s \<longleftrightarrow> take (length t) s = t"
  by (auto simp: prefix_def) (metis append_take_drop_id)

lemma at_line_terminator_prefix:
  "at_line_terminator s \<longleftrightarrow>
     prefix [CHR 0x0A] s \<or> prefix [CHR 0x0D] s \<or>
     prefix [CHR 0xE2, CHR 0x80, CHR 0xA8] s \<or> prefix [CHR 0xE2, CHR 0x80, CHR 0xA9] s"
  unfolding prefix_take at_line_terminator_def by (simp add: numeral_3_eq_3)

text \<open>\<open>.\<close> matches all along a string exactly when none of the four line terminators
  occurs in it.\<close>

lemma dots_iff: "dots s \<longleftrightarrow> list_all (\<lambda>t. \<not> sublist t s) line_terminators"
proof (induction s)
  case Nil
  show ?case by (simp add: line_terminators_def)
next
  case (Cons c cs)
  have "list_all (\<lambda>t. \<not> sublist t (c # cs)) line_terminators \<longleftrightarrow>
      \<not> at_line_terminator (c # cs) \<and> list_all (\<lambda>t. \<not> sublist t cs) line_terminators"
    unfolding line_terminators_def at_line_terminator_prefix
    by (simp only: list.pred_inject sublist_Cons_right [of _ c cs]) blast
  with Cons show ?case by simp
qed

text \<open>The class \<open>[a-zA-Z]\<close> is the 52 letters of ASCII.\<close>

lemma ascii_letters_chars:
  "list_all (\<lambda>n. (char_of (n::nat) :: char) \<in> set ascii_letters) ([65..<91] @ [97..<123])"
  by code_simp

lemma is_letter_iff: "is_letter c \<longleftrightarrow> c \<in> set ascii_letters"
proof
  assume "is_letter c"
  then have "(of_char c :: nat) \<in> {65..<91} \<union> {97..<123}"
    by (auto simp: is_letter_def)
  then have "(of_char c :: nat) \<in> set ([65..<91] @ [97..<123])"
    by (simp only: set_append set_upt)
  with ascii_letters_chars have "(char_of (of_char c :: nat) :: char) \<in> set ascii_letters"
    unfolding list_all_iff by blast
  then show "c \<in> set ascii_letters" by simp
next
  assume "c \<in> set ascii_letters"
  then show "is_letter c"
    by (auto simp: ascii_letters_def is_letter_def)
qed

lemma data_url_pattern_match:
  "data_url_pattern s l p \<longleftrightarrow>
     s = ''data:image/'' @ l @ '';base64,'' @ p \<and> l \<noteq> [] \<and> list_all is_letter l \<and>
     p \<noteq> [] \<and> dots p"
proof -
  have "is_letter = (\<lambda>c. c \<in> set ascii_letters)"
    by (rule ext) (rule is_letter_iff)
  then show ?thesis
    by (simp add: data_url_pattern_def dots_iff)
qed

lemma match_data_url_iff:
  "match_data_url s = Some (l, p) \<longleftrightarrow> data_url_pattern s l p"
proof
  assume m: "match_data_url s = Some (l, p)"
  then obtain rest where rest: "s = ''data:image/'' @ rest"
    by (auto simp: match_data_url_def strip_prefix_Some split: option.splits)
  then have sp: "strip_prefix ''data:image/'' s = Some rest"
    by (simp add: strip_prefix_Some)
  from m sp have l: "l = takeWhile is_letter rest" "l \<noteq> []"
    and d: "dropWhile is_letter rest = '';base64,'' @ p"
    and p: "p \<noteq> []" "dots p"
    by (auto simp: match_data_url_def Let_def strip_prefix_Some split: option.splits if_splits)
  have "rest = l @ '';base64,'' @ p"
    using takeWhile_dropWhile_id [of is_letter rest] l(1) d by simp
  moreover have "list_all is_letter l"
    unfolding l(1) list_all_iff by (auto dest: set_takeWhileD)
  ultimately show "data_url_pattern s l p"
    using rest l(2) p by (simp add: data_url_pattern_match)
next
  assume "data_url_pattern s l p"
  then have s: "s = ''data:image/'' @ l @ CHR '';'' # (''base64,'' @ p)"
    and l: "l \<noteq> []" "list_all is_letter l"
    and p: "p \<noteq> []" "dots p"
    by (simp_all add: data_url_pattern_match)
  have sp: "strip_prefix ''data:image/'' s = Some (l @ CHR '';'' # (''base64,'' @ p))"
    unfolding strip_prefix_Some s by simp
  have sp2: "strip_prefix '';base64,'' (CHR '';'' # (''base64,'' @ p)) = Some p"
    unfolding strip_prefix_Some by simp
  show "match_data_url s = Some (l, p)"
    unfolding match_data_url_def sp
    by (simp add: Let_def takeWhile_letters [OF l(2)] dropWhile_letters [OF l(2)] sp2 l p
        del: append.simps)
qed

lemma match_data_url_None: "match_data_url s = None \<longleftrightarrow> (\<nexists>l p. data_url_pattern s l p)"
  using match_data_url_iff [of s]
  by (cases "match_data_url s") auto

lemma uploadToSupabase_disk:
  "fst (getSupabase env st) = Inr client \<Longrightarrow>
   uploadToSupabase rt env None filename buffer (st\<lparr>disk := d\<rparr>) =
     (Inr (getPublicUrl rt client BUCKET_NAME filename),
      (snd (getSupabase env st))
        \<lparr>disk := d,
         requests := requests st @ [Upload BUCKET_NAME filename buffer (getContentType rt filename) True],
         objects := (objects st)((BUCKET_NAME, filename) \<mapsto> (buffer, getContentType rt filename))\<rparr>)"
  using uploadToSupabase_ok [of env "st\<lparr>disk := d\<rparr>" client rt filename buffer]
  by (simp add: getSupabase_disk)

lemma example_client:
  "fst (getSupabase database_env example_state) = Inr (createClient ''https://example.test'' ''key'')"
  by (simp add: getSupabase_def database_env_def example_state_def credentials_def truthy_str_def)

lemma example_path:
  "path_join example_runtime ''/srv/uploads'' f = ''/srv/uploads/'' @ f"
  by (simp add: example_runtime_def)

subsection \<open>Deleting an image\<close>

text \<open>
  C6. For every filename whose path under the uploads directory is not itself a
  directory, and with a client at hand, \<^verbatim>\<open>deleteImage\<close> returns successfully whether
  the storage side reports an error or not: it removes the local file when it exists, so
  that nothing is left at the path, leaves every other path alone, and requests the
  removal of the stored object; an error the storage side reports is logged by
  \<^verbatim>\<open>console.warn\<close> and not thrown (the object then stays), and without one the object is
  removed.
\<close>

theorem deleteImage_tolerant:
  assumes "disk st (path_join rt (uploadsDir this) filename) \<noteq> Some Dir"
    and "fst (getSupabase env st) = Inr client"
  shows "\<exists>st'. deleteImage rt env storage_fault this filename st = (Inr (), st') \<and>
           disk st' = (disk st)(path_join rt (uploadsDir this) filename := None) \<and>
           disk st' (path_join rt (uploadsDir this) filename) = None \<and>
           requests st' = requests st @ [Remove BUCKET_NAME [filename]] \<and>
           (case storage_fault of
              Some err \<Rightarrow>
                logs st' = logs (snd (getSupabase env st)) @
                  [console_warn ''Supabase storage delete warning:'' err] \<and>
                objects st' = objects st
            | None \<Rightarrow>
                logs st' = logs (snd (getSupabase env st)) \<and>
                objects st' = (objects st)((BUCKET_NAME, filename) := None))"
proof -
  let ?p = "path_join rt (uploadsDir this) filename"
  let ?d = "(disk st)(?p := None)"
  have d: "(if existsSync (disk st) ?p then unlinkSync (disk st) ?p else Inr (disk st)) = Inr ?d"
  proof (cases "disk st ?p")
    case None
    then have "?d = disk st" by (simp add: fun_upd_idem)
    with None show ?thesis by (simp add: existsSync_def)
  next
    case (Some n)
    with assms(1) obtain b where "disk st ?p = Some (File b)" by (cases n) auto
    then show ?thesis by (simp add: existsSync_def unlinkSync_def)
  qed
  have g: "getSupabase env (st\<lparr>disk := ?d\<rparr>) = (Inr client, (snd (getSupabase env st))\<lparr>disk := ?d\<rparr>)"
    using assms(2) by (simp add: getSupabase_disk)
  show ?thesis
    by (cases storage_fault) (simp_all add: deleteImage_def Let_def d g getSupabase_frame)
qed

theorem deleteImage_tolerant_witness:
  "disk example_state (path_join example_runtime (uploadsDir \<lparr>uploadsDir = ''/srv/uploads''\<rparr>) ''a.png'')
     \<noteq> Some Dir \<and>
   fst (getSupabase database_env example_state) = Inr (createClient ''https://example.test'' ''key'') \<and>
   fst (deleteImage example_runtime database_env (Some \<lparr>s_message = ''Bucket not found''\<rparr>)
          \<lparr>uploadsDir = ''/srv/uploads''\<rparr> ''a.png'' example_state) = Inr () \<and>
   disk (snd (deleteImage example_runtime database_env (Some \<lparr>s_message = ''Bucket not found''\<rparr>)
          \<lparr>uploadsDir = ''/srv/uploads''\<rparr> ''a.png'' example_state)) ''/srv/uploads/a.png'' = None \<and>
   requests (snd (deleteImage example_runtime database_env (Some \<lparr>s_message = ''Bucket not found''\<rparr>)
          \<lparr>uploadsDir = ''/srv/uploads''\<rparr> ''a.png'' example_state))
     = [Remove ''oral_images'' [''a.png'']] \<and>
   logs (snd (deleteImage example_runtime database_env (Some \<lparr>s_message = ''Bucket not found''\<rparr>)
          \<lparr>uploadsDir = ''/srv/uploads''\<rparr> ''a.png'' example_state))
     = [console_warn ''Supabase storage delete warning:'' \<lparr>s_message = ''Bucket not found''\<rparr>]"
proof -
  have h1: "disk example_state
      (path_join example_runtime (uploadsDir \<lparr>uploadsDir = ''/srv/uploads''\<rparr>) ''a.png'') \<noteq> Some Dir"
    by (simp add: example_path example_state_def)
  have l: "logs (snd (getSupabase database_env example_state)) = []"
    "requests example_state = []"
    by (simp_all add: getSupabase_def database_env_def example_state_def credentials_def truthy_str_def)
  from deleteImage_tolerant [OF h1 example_client, of "Some \<lparr>s_message = ''Bucket not found''\<rparr>"]
    h1 example_client l
  show ?thesis
    by (auto simp: example_path BUCKET_NAME_def)
qed

subsection \<open>Processing a staged upload\<close>

text \<open>
  C7. For every uploaded file staged on local disk (its bytes are at the path of its
  filename under the uploads directory), with a client at hand and a storage side that
  accepts the upload, \<^verbatim>\<open>processImage\<close> uploads exactly the file's bytes to the bucket
  under the staged filename and returns that filename, the public URL of the object, the
  path under the uploads directory and the size of the file; the disk is left as it is.
\<close>

theorem processImage_result:
  assumes "disk st (path_join rt (uploadsDir this) (f_filename file)) = Some (File bytes)"
    and "fst (getSupabase env st) = Inr client"
  shows "\<exists>st'. processImage rt env None this file st =
           (Inr \<lparr>res_filename = f_filename file,
                 res_imageUrl = getPublicUrl rt client BUCKET_NAME (f_filename file),
                 res_filePath = path_join rt (uploadsDir this) (f_filename file),
                 res_size = f_size file\<rparr>, st') \<and>
           requests st' = requests st @
             [Upload BUCKET_NAME (f_filename file) bytes (getContentType rt (f_filename file)) True] \<and>
           objects st' (BUCKET_NAME, f_filename file) =
             Some (bytes, getContentType rt (f_filename file)) \<and>
           disk st' = disk st"
  using assms
  by (simp add: processImage_def Let_def readFileSync_def uploadToSupabase_ok getSupabase_frame)

theorem processImage_result_witness:
  "disk example_state
     (path_join example_runtime (uploadsDir \<lparr>uploadsDir = ''/srv/uploads''\<rparr>)
        (f_filename \<lparr>f_filename = ''a.png'', f_size = 4\<rparr>)) = Some (File [137, 80, 78, 71]) \<and>
   fst (getSupabase database_env example_state) = Inr (createClient ''https://example.test'' ''key'') \<and>
   fst (processImage example_runtime database_env None \<lparr>uploadsDir = ''/srv/uploads''\<rparr>
          \<lparr>f_filename = ''a.png'', f_size = 4\<rparr> example_state)
     = Inr \<lparr>res_filename = ''a.png'',
            res_imageUrl = ''https://example.test/storage/oral_images/a.png'',
            res_filePath = ''/srv/uploads/a.png'', res_size = 4\<rparr> \<and>
   objects (snd (processImage example_runtime database_env None \<lparr>uploadsDir = ''/srv/uploads''\<rparr>
          \<lparr>f_filename = ''a.png'', f_size = 4\<rparr> example_state)) (''oral_images'', ''a.png'')
     = Some ([137, 80, 78, 71], ''image/png'')"
proof -
  have h1: "disk example_state
     (path_join example_runtime (uploadsDir \<lparr>uploadsDir = ''/srv/uploads''\<rparr>)
        (f_filename \<lparr>f_filename = ''a.png'', f_size = 4\<rparr>)) = Some (File [137, 80, 78, 71])"
    by (simp add: example_path example_state_def)
  have c: "getContentType example_runtime ''a.png'' = ''image/png''"
    by (simp add: getContentType_def example_runtime_def toLowerCase_def lower_char_def)
  have u: "getPublicUrl example_runtime (createClient ''https://example.test'' ''key'') ''oral_images'' ''a.png''
      = ''https://example.test/storage/oral_images/a.png''"
    by (simp add: example_runtime_def)
  from processImage_result [OF h1 example_client] h1 example_client c u
  show ?thesis
    by (auto simp: example_path BUCKET_NAME_def)
qed

subsection \<open>Saving a base64 image\<close>

text \<open>
  C8. \<^verbatim>\<open>saveBase64Image\<close> matches a string exactly when it has the shape
  \<open>data:image/<letters>;base64,<payload>\<close>, with one or more letters of ASCII and a
  payload that is not empty and holds no line terminator (line feed, carriage return,
  U+2028, U+2029). On every string without a match it throws
  (\<open>Failed to save base64 image\<close>), having written and uploaded nothing. On every
  matching string, with a client at hand, a file system and a storage side that accept
  the write and the upload, and no directory at the target path, it decodes the payload, writes the decoded bytes under
  the generated filename \<open>seg_<now>_<random>.<ext>\<close>, whose extension is the letters of
  the data URL with \<open>jpeg\<close> turned into \<open>jpg\<close>, uploads the same bytes under that
  filename, and returns a result whose size is the number of decoded bytes.
\<close>

theorem saveBase64Image_spec:
  "(match_data_url s = None \<longleftrightarrow> (\<nexists>letters payload. data_url_pattern s letters payload)) \<and>
   (match_data_url s = None \<longrightarrow>
      (\<exists>st'. saveBase64Image rt env storage_fault write_fault this t_now random36 s st =
               (Inl (JsError ''Failed to save base64 image''), st') \<and>
             disk st' = disk st \<and> objects st' = objects st \<and> requests st' = requests st)) \<and>
   (data_url_pattern s letters payload \<and>
    fst (getSupabase env st) = Inr client \<and>
    filename = ''seg_'' @ string_of_nat t_now @ ''_'' @ drop 7 random36 @ ''.'' @
       (if letters = ''jpeg'' then ''jpg'' else letters) \<and>
    disk st (path_join rt (uploadsDir this) filename) \<noteq> Some Dir \<longrightarrow>
      (\<exists>st'. saveBase64Image rt env None None this t_now random36 s st =
               (Inr \<lparr>res_filename = filename,
                     res_imageUrl = getPublicUrl rt client BUCKET_NAME filename,
                     res_filePath = path_join rt (uploadsDir this) filename,
                     res_size = length (base64_decode rt payload)\<rparr>, st') \<and>
             disk st' = (disk st)(path_join rt (uploadsDir this) filename \<mapsto>
                          File (base64_decode rt payload)) \<and>
             objects st' (BUCKET_NAME, filename) =
               Some (base64_decode rt payload, getContentType rt filename) \<and>
             requests st' = requests st @
               [Upload BUCKET_NAME filename (base64_decode rt payload)
                  (getContentType rt filename) True]))"
proof (intro conjI impI)
  show "match_data_url s = None \<longleftrightarrow> (\<nexists>letters payload. data_url_pattern s letters payload)"
    by (rule match_data_url_None)
next
  assume "match_data_url s = None"
  then show "\<exists>st'. saveBase64Image rt env storage_fault write_fault this t_now random36 s st =
               (Inl (JsError ''Failed to save base64 image''), st') \<and>
             disk st' = disk st \<and> objects st' = objects st \<and> requests st' = requests st"
    by (simp add: saveBase64Image_def Let_def)
next
  let ?p = "path_join rt (uploadsDir this) filename"
  let ?b = "base64_decode rt payload"
  assume a: "data_url_pattern s letters payload \<and>
    fst (getSupabase env st) = Inr client \<and>
    filename = ''seg_'' @ string_of_nat t_now @ ''_'' @ drop 7 random36 @ ''.'' @
       (if letters = ''jpeg'' then ''jpg'' else letters) \<and>
    disk st ?p \<noteq> Some Dir"
  then have m: "match_data_url s = Some (letters, payload)"
    by (simp add: match_data_url_iff)
  from a have nd: "disk st ?p \<noteq> Some Dir" by blast
  then have w: "writeFileSync None (disk st) ?p ?b = Inr ((disk st)(?p \<mapsto> File ?b))"
    by (auto simp: writeFileSync_def split: option.splits node.splits)
  from a have fn: "''seg_'' @ string_of_nat t_now @ ''_'' @ drop 7 random36 @ ''.'' @
       (if letters = ''jpeg'' then ''jpg'' else letters) = filename" by blast
  from a have g: "fst (getSupabase env st) = Inr client" by blast
  show "\<exists>st'. saveBase64Image rt env None None this t_now random36 s st =
               (Inr \<lparr>res_filename = filename,
                     res_imageUrl = getPublicUrl rt client BUCKET_NAME filename,
                     res_filePath = ?p,
                     res_size = length ?b\<rparr>, st') \<and>
             disk st' = (disk st)(?p \<mapsto> File ?b) \<and>
             objects st' (BUCKET_NAME, filename) = Some (?b, getContentType rt filename) \<and>
             requests st' = requests st @
               [Upload BUCKET_NAME filename ?b (getContentType rt filename) True]"
    unfolding saveBase64Image_def Let_def m
    by (simp add: fn w uploadToSupabase_disk [OF g] del: append.simps)
qed

theorem saveBase64Image_spec_witness:
  "match_data_url ''hello'' = None \<and>
   fst (saveBase64Image example_runtime database_env None None \<lparr>uploadsDir = ''/srv/uploads''\<rparr> 42
          ''0.4fzyo82mvyr'' ''hello'' example_state) = Inl (JsError ''Failed to save base64 image'') \<and>
   match_data_url (''data:image/png;base64,AA'' @ [CHR 0xE2, CHR 0x80, CHR 0xA8] @ ''AA'') = None \<and>
   fst (saveBase64Image example_runtime database_env None None \<lparr>uploadsDir = ''/srv/uploads''\<rparr> 42
          ''0.4fzyo82mvyr'' (''data:image/png;base64,AA'' @ [CHR 0xE2, CHR 0x80, CHR 0xA8] @ ''AA'')
          example_state) = Inl (JsError ''Failed to save base64 image'') \<and>
   data_url_pattern ''data:image/jpeg;base64,AAAA'' ''jpeg'' ''AAAA'' \<and>
   fst (getSupabase database_env example_state) = Inr (createClient ''https://example.test'' ''key'') \<and>
   disk example_state ''/srv/uploads/seg_42_82mvyr.jpg'' \<noteq> Some Dir \<and>
   fst (saveBase64Image example_runtime database_env None None \<lparr>uploadsDir = ''/srv/uploads''\<rparr> 42
          ''0.4fzyo82mvyr'' ''data:image/jpeg;base64,AAAA'' example_state)
     = Inr \<lparr>res_filename = ''seg_42_82mvyr.jpg'',
            res_imageUrl = ''https://example.test/storage/oral_images/seg_42_82mvyr.jpg'',
            res_filePath = ''/srv/uploads/seg_42_82mvyr.jpg'', res_size = 3\<rparr> \<and>
   disk (snd (saveBase64Image example_runtime database_env None None \<lparr>uploadsDir = ''/srv/uploads''\<rparr> 42
          ''0.4fzyo82mvyr'' ''data:image/jpeg;base64,AAAA'' example_state))
      ''/srv/uploads/seg_42_82mvyr.jpg'' = Some (File [0, 0, 0]) \<and>
   objects (snd (saveBase64Image example_runtime database_env None None \<lparr>uploadsDir = ''/srv/uploads''\<rparr> 42
          ''0.4fzyo82mvyr'' ''data:image/jpeg;base64,AAAA'' example_state))
      (''oral_images'', ''seg_42_82mvyr.jpg'') = Some ([0, 0, 0], ''image/jpeg'')"
proof -
  let ?svc = "\<lparr>uploadsDir = ''/srv/uploads''\<rparr>"
  have n: "match_data_url ''hello'' = None"
    by (simp add: match_data_url_def strip_prefix_def)
  have n2: "match_data_url (''data:image/png;base64,AA'' @ [CHR 0xE2, CHR 0x80, CHR 0xA8] @ ''AA'') = None"
    by (simp add: match_data_url_def strip_prefix_def is_letter_def at_line_terminator_def Let_def)
  have a2: "\<exists>st'. saveBase64Image example_runtime database_env None None ?svc 42 ''0.4fzyo82mvyr''
       (''data:image/png;base64,AA'' @ [CHR 0xE2, CHR 0x80, CHR 0xA8] @ ''AA'') example_state
       = (Inl (JsError ''Failed to save base64 image''), st')"
    using saveBase64Image_spec [of "''data:image/png;base64,AA'' @ [CHR 0xE2, CHR 0x80, CHR 0xA8] @ ''AA''" example_runtime database_env None None ?svc 42
        "''0.4fzyo82mvyr''" example_state] n2
    by blast
  have p: "data_url_pattern ''data:image/jpeg;base64,AAAA'' ''jpeg'' ''AAAA''"
    by (simp add: data_url_pattern_def ascii_letters_def line_terminators_def sublist_Cons_right)
  have f: "''seg_42_82mvyr.jpg'' = ''seg_'' @ string_of_nat 42 @ ''_'' @ drop 7 ''0.4fzyo82mvyr'' @ ''.'' @
       (if ''jpeg'' = ''jpeg'' then ''jpg'' else ''jpeg'')"
    by (simp add: string_of_nat_42)
  have d: "disk example_state (path_join example_runtime (uploadsDir ?svc) ''seg_42_82mvyr.jpg'')
      \<noteq> Some Dir"
    by (simp add: example_path example_state_def)
  have c: "getContentType example_runtime ''seg_42_82mvyr.jpg'' = ''image/jpeg''"
    by (simp add: getContentType_def example_runtime_def toLowerCase_def lower_char_def)
  have u: "getPublicUrl example_runtime (createClient ''https://example.test'' ''key'') ''oral_images''
       ''seg_42_82mvyr.jpg'' = ''https://example.test/storage/oral_images/seg_42_82mvyr.jpg''"
    "base64_decode example_runtime ''AAAA'' = [0, 0, 0]"
    by (simp_all add: example_runtime_def)
  have a: "\<exists>st'. saveBase64Image example_runtime database_env None None ?svc 42 ''0.4fzyo82mvyr'' ''hello''
       example_state = (Inl (JsError ''Failed to save base64 image''), st')"
    using saveBase64Image_spec [of "''hello''" example_runtime database_env None None ?svc 42
        "''0.4fzyo82mvyr''" example_state] n
    by blast
  have hyp: "data_url_pattern ''data:image/jpeg;base64,AAAA'' ''jpeg'' ''AAAA'' \<and>
      fst (getSupabase database_env example_state) = Inr (createClient ''https://example.test'' ''key'') \<and>
      ''seg_42_82mvyr.jpg'' = ''seg_'' @ string_of_nat 42 @ ''_'' @ drop 7 ''0.4fzyo82mvyr'' @ ''.'' @
       (if ''jpeg'' = ''jpeg'' then ''jpg'' else ''jpeg'') \<and>
      disk example_state (path_join example_runtime (uploadsDir ?svc) ''seg_42_82mvyr.jpg'') \<noteq> Some Dir"
    using p example_client f d by blast
  have b: "\<exists>st'. saveBase64Image example_runtime database_env None None ?svc 42 ''0.4fzyo82mvyr''
        ''data:image/jpeg;base64,AAAA'' example_state =
               (Inr \<lparr>res_filename = ''seg_42_82mvyr.jpg'',
                     res_imageUrl = ''https://example.test/storage/oral_images/seg_42_82mvyr.jpg'',
                     res_filePath = ''/srv/uploads/seg_42_82mvyr.jpg'',
                     res_size = 3\<rparr>, st') \<and>
             disk st' ''/srv/uploads/seg_42_82mvyr.jpg'' = Some (File [0, 0, 0]) \<and>
             objects st' (''oral_images'', ''seg_42_82mvyr.jpg'') = Some ([0, 0, 0], ''image/jpeg'')"
    using saveBase64Image_spec [THEN conjunct2, THEN conjunct2, THEN mp, OF hyp]
    by (auto simp: c u example_path BUCKET_NAME_def)
  from a a2 b n n2 p example_client d show ?thesis
    by (auto simp: example_path)
qed

section \<open>Properties of the diagnoses table\<close>

subsection \<open>Auxiliary facts\<close>

lemma decimal_5_4_cases:
  "decimal_5_4 v = Inr None \<and> v = None \<or>
   (\<exists>x. v = Some x \<and> decimal_5_4 v = Inr (Some (round4 x))) \<or>
   (\<exists>err. decimal_5_4 v = Inl err)"
  by (cases v) (auto simp: decimal_5_4_def)

lemma decimal_out_of_range:
  "out_of_range v \<Longrightarrow> decimal_5_4 v = Inr s \<Longrightarrow> \<not> score_check s \<and> (\<forall>c. s = Some c \<longrightarrow> \<not> confidence_check c)"
  by (auto simp: out_of_range_def decimal_5_4_def score_check_def confidence_check_def
      split: option.splits if_splits)

lemma numeric_columns_Inr:
  "numeric_columns c s1 s2 s3 s4 = Inr (c', s1', s2', s3', s4') \<longleftrightarrow>
     c = Inr c' \<and> s1 = Inr s1' \<and> s2 = Inr s2' \<and> s3 = Inr s3' \<and> s4 = Inr s4'"
  by (auto simp: numeric_columns_def split: sum.splits)

lemma checked_row:
  "(case n of
      Inl err \<Rightarrow> Inl err
    | Inr (None, s1, s2, s3, s4) \<Rightarrow> Inl not_null_violation
    | Inr (Some c, s1, s2, s3, s4) \<Rightarrow>
        (let row = f c s1 s2 s3 s4 in if row_checks row then Inr row else Inl check_violation))
     = Inr row \<Longrightarrow>
   \<exists>c s1 s2 s3 s4. n = Inr (Some c, s1, s2, s3, s4) \<and> row = f c s1 s2 s3 s4 \<and> row_checks row"
  by (cases n) (auto simp: Let_def split: option.splits if_splits)

lemma inserted_row_Inr:
  assumes "inserted_row e ins = Inr row"
  shows "row_checks row \<and>
    decimal_5_4 (di_confidence ins) = Inr (Some (d_confidence row)) \<and>
    decimal_5_4 (di_olp_score ins) = Inr (d_olp_score row) \<and>
    decimal_5_4 (di_olk_score ins) = Inr (d_olk_score row) \<and>
    decimal_5_4 (di_ooml_score ins) = Inr (d_ooml_score row) \<and>
    decimal_5_4 (di_opmd_score ins) = Inr (d_opmd_score row)"
proof -
  from checked_row [OF assms [unfolded inserted_row_def]]
  obtain c s1 s2 s3 s4 where
    n: "numeric_columns (decimal_5_4 (di_confidence ins)) (decimal_5_4 (di_olp_score ins))
          (decimal_5_4 (di_olk_score ins)) (decimal_5_4 (di_ooml_score ins))
          (decimal_5_4 (di_opmd_score ins)) = Inr (Some c, s1, s2, s3, s4)"
    and row: "d_confidence row = c" "d_olp_score row = s1" "d_olk_score row = s2"
      "d_ooml_score row = s3" "d_opmd_score row = s4" and ok: "row_checks row"
    by auto
  from n row ok show ?thesis by (simp add: numeric_columns_Inr)
qed

lemma updated_row_Inr:
  assumes "updated_row e u r = Inr row"
  shows "row_checks row \<and>
    written (du_confidence u) (Some (d_confidence r)) = Inr (Some (d_confidence row)) \<and>
    written (du_olp_score u) (d_olp_score r) = Inr (d_olp_score row) \<and>
    written (du_olk_score u) (d_olk_score r) = Inr (d_olk_score row) \<and>
    written (du_ooml_score u) (d_ooml_score r) = Inr (d_ooml_score row) \<and>
    written (du_opmd_score u) (d_opmd_score r) = Inr (d_opmd_score row)"
proof -
  from checked_row [OF assms [unfolded updated_row_def]]
  obtain c s1 s2 s3 s4 where
    n: "numeric_columns (written (du_confidence u) (Some (d_confidence r)))
          (written (du_olp_score u) (d_olp_score r)) (written (du_olk_score u) (d_olk_score r))
          (written (du_ooml_score u) (d_ooml_score r)) (written (du_opmd_score u) (d_opmd_score r))
        = Inr (Some c, s1, s2, s3, s4)"
    and row: "d_confidence row = c" "d_olp_score row = s1" "d_olk_score row = s2"
      "d_ooml_score row = s3" "d_opmd_score row = s4" and ok: "row_checks row"
    by auto
  from n row ok show ?thesis by (simp add: numeric_columns_Inr)
qed

lemma inserted_row_checks: "inserted_row e ins = Inr row \<Longrightarrow> row_checks row"
  by (simp add: inserted_row_Inr)

lemma updated_row_checks: "updated_row e u r = Inr row \<Longrightarrow> row_checks row"
  by (simp add: updated_row_Inr)

lemma update_rows_checks:
  "list_all row_checks t \<Longrightarrow> update_rows e sel u t = Inr t' \<Longrightarrow> list_all row_checks t'"
  by (induction t arbitrary: t')
    (auto split: if_splits sum.splits dest: updated_row_checks)

lemma apply_write_checks: "list_all row_checks t \<Longrightarrow> list_all row_checks (apply_write w t)"
proof (cases w)
  case (Insert_diagnosis e ins)
  then show "list_all row_checks t \<Longrightarrow> ?thesis"
    by (auto simp: insert_diagnosis_def split: option.splits sum.splits dest: inserted_row_checks)
next
  case (Update_diagnoses e sel u)
  then show "list_all row_checks t \<Longrightarrow> ?thesis"
    by (auto simp: update_diagnoses_def split: option.splits sum.splits dest: update_rows_checks)
next
  case (Delete_diagnoses e sel)
  then show "list_all row_checks t \<Longrightarrow> ?thesis"
    by (auto simp: delete_diagnoses_def list_all_iff split: option.splits)
qed

lemma foldl_checks:
  "list_all row_checks t \<Longrightarrow> list_all row_checks (foldl (\<lambda>t w. apply_write w t) t ws)"
  by (induction ws arbitrary: t) (simp_all add: apply_write_checks)

lemma reached_checks: "list_all row_checks (reached ws)"
  unfolding reached_def by (rule foldl_checks) simp

lemma inserted_row_rejects:
  assumes "insert_out_of_range ins"
  shows "\<exists>err. inserted_row e ins = Inl err"
proof (cases "inserted_row e ins")
  case (Inl err)
  then show ?thesis by blast
next
  case (Inr row)
  note r = inserted_row_Inr [OF Inr]
  from r have ok: "confidence_check (d_confidence row)" "score_check (d_olp_score row)"
    "score_check (d_olk_score row)" "score_check (d_ooml_score row)" "score_check (d_opmd_score row)"
    by (simp_all add: row_checks_def)
  from assms r ok show ?thesis
    unfolding insert_out_of_range_def by (auto dest: decimal_out_of_range)
qed

lemma written_out_of_range:
  assumes "out_of_range (payload_value w)" and "written w old = Inr s"
  shows "\<not> score_check s \<and> (\<forall>c. s = Some c \<longrightarrow> \<not> confidence_check c)"
proof (cases w)
  case None
  with assms(1) show ?thesis by (simp add: payload_value_def out_of_range_def)
next
  case (Some v)
  with assms have "out_of_range v" "decimal_5_4 v = Inr s"
    by (simp_all add: payload_value_def written_def)
  then show ?thesis by (rule decimal_out_of_range)
qed

lemma updated_row_rejects:
  assumes "update_out_of_range u"
  shows "\<exists>err. updated_row e u r = Inl err"
proof (cases "updated_row e u r")
  case (Inl err)
  then show ?thesis by blast
next
  case (Inr row)
  note r = updated_row_Inr [OF Inr]
  from r have ok: "confidence_check (d_confidence row)" "score_check (d_olp_score row)"
    "score_check (d_olk_score row)" "score_check (d_ooml_score row)" "score_check (d_opmd_score row)"
    by (simp_all add: row_checks_def)
  from assms r ok show ?thesis
    unfolding update_out_of_range_def by (auto dest: written_out_of_range)
qed

lemma update_rows_rejects:
  assumes "update_out_of_range u"
  shows "(\<exists>r\<in>set t. sel r) \<and> (\<exists>err. update_rows e sel u t = Inl err) \<or>
         (\<forall>r\<in>set t. \<not> sel r) \<and> update_rows e sel u t = Inr t"
proof (induction t)
  case Nil
  show ?case by simp
next
  case (Cons r rs)
  show ?case
  proof (cases "sel r")
    case True
    with updated_row_rejects [OF assms, of e r] show ?thesis by auto
  next
    case False
    with Cons show ?thesis by auto
  qed
qed

lemma round4_examples:
  "round4 (100004 / 100000) = 1"
  "round4 (87654 / 100000) = 8765 / 10000"
  "round4 (1 / 2) = 1 / 2"
  "round4 (3 / 2) = 3 / 2"
  "round4 (25001 / 25000) = 1"
  "round4 (43827 / 50000) = 1753 / 2000"
  by code_simp+

subsection \<open>Scores within the unit interval\<close>

text \<open>
  C5 (as amended). In every stored state that writes can reach, each diagnosis row has a
  confidence in \<open>[0,1]\<close> and each of its four scores \<open>olp_score\<close>, \<open>olk_score\<close>,
  \<open>ooml_score\<close> and \<open>opmd_score\<close> is null or in \<open>[0,1]\<close>. A write is checked on the
  values its columns take, that is after rounding to the four decimal places of
  \<open>DECIMAL(5,4)\<close>: an insert or an update that writes a confidence or a score whose
  rounded value is outside \<open>[0,1]\<close> is refused and leaves the table as it is.
\<close>

theorem diagnosis_scores_in_range:
  "(\<forall>r\<in>set (reached ws).
      0 \<le> d_confidence r \<and> d_confidence r \<le> 1 \<and>
      (\<forall>s. d_olp_score r = Some s \<longrightarrow> 0 \<le> s \<and> s \<le> 1) \<and>
      (\<forall>s. d_olk_score r = Some s \<longrightarrow> 0 \<le> s \<and> s \<le> 1) \<and>
      (\<forall>s. d_ooml_score r = Some s \<longrightarrow> 0 \<le> s \<and> s \<le> 1) \<and>
      (\<forall>s. d_opmd_score r = Some s \<longrightarrow> 0 \<le> s \<and> s \<le> 1)) \<and>
   (insert_out_of_range ins \<longrightarrow>
      error (fst (insert_diagnosis e ins t)) \<noteq> None \<and> snd (insert_diagnosis e ins t) = t) \<and>
   (update_out_of_range u \<longrightarrow>
      snd (update_diagnoses e sel u t) = t \<and>
      ((\<exists>r\<in>set t. sel r) \<longrightarrow> error (fst (update_diagnoses e sel u t)) \<noteq> None))"
proof (intro conjI impI ballI)
  fix r assume "r \<in> set (reached ws)"
  with reached_checks [of ws] have c: "row_checks r"
    by (simp add: list_all_iff)
  then show "0 \<le> d_confidence r" "d_confidence r \<le> 1"
    by (simp_all add: row_checks_def confidence_check_def)
  from c show "\<forall>s. d_olp_score r = Some s \<longrightarrow> 0 \<le> s \<and> s \<le> 1"
    "\<forall>s. d_olk_score r = Some s \<longrightarrow> 0 \<le> s \<and> s \<le> 1"
    "\<forall>s. d_ooml_score r = Some s \<longrightarrow> 0 \<le> s \<and> s \<le> 1"
    "\<forall>s. d_opmd_score r = Some s \<longrightarrow> 0 \<le> s \<and> s \<le> 1"
    by (auto simp: row_checks_def score_check_def split: option.splits)
next
  assume "insert_out_of_range ins"
  then obtain err where "inserted_row e ins = Inl err"
    using inserted_row_rejects by blast
  then show "error (fst (insert_diagnosis e ins t)) \<noteq> None" "snd (insert_diagnosis e ins t) = t"
    by (simp_all add: insert_diagnosis_def failed_def split: option.splits)
next
  assume b: "update_out_of_range u"
  from update_rows_rejects [OF b, of t sel e]
  show "snd (update_diagnoses e sel u t) = t"
    by (auto simp: update_diagnoses_def split: option.splits)
  assume "\<exists>r\<in>set t. sel r"
  with update_rows_rejects [OF b, of t sel e]
  show "error (fst (update_diagnoses e sel u t)) \<noteq> None"
    by (auto simp: update_diagnoses_def failed_def split: option.splits)
qed

theorem diagnosis_scores_in_range_witness:
  "(\<exists>r. reached [Insert_diagnosis \<lparr>fault = None, new_uuid = ''d1'', db_now = ''t1''\<rparr>
       \<lparr>di_patient_id = ''patient-1'', di_type = Oral, di_image_url = ''u'',
        di_confidence = Some (87654 / 100000), di_finding = ''f'', di_recommendation = ''r'',
        di_severity = None, di_report_recommendation = None, di_status_code = None,
        di_olp_score = Some (1 / 2), di_olk_score = None, di_ooml_score = None,
        di_opmd_score = None, di_knowledge = None, di_annotated_image_url = None,
        di_detections = None\<rparr>] = [r] \<and>
      d_confidence r = 8765 / 10000 \<and> 0 \<le> d_confidence r \<and> d_confidence r \<le> 1 \<and>
      d_olp_score r = Some (1 / 2) \<and>
      snd (update_diagnoses \<lparr>fault = None, new_uuid = ''d2'', db_now = ''t2''\<rparr> (\<lambda>r. d_id r = ''d1'')
        \<lparr>du_patient_id = None, du_type = None, du_image_url = None, du_confidence = None,
         du_finding = None, du_recommendation = None, du_severity = None,
         du_report_recommendation = None, du_status_code = None,
         du_olp_score = Some (Some (3 / 2)), du_olk_score = None, du_ooml_score = None,
         du_opmd_score = None, du_knowledge = None, du_annotated_image_url = None,
         du_detections = None\<rparr> [r]) = [r] \<and>
      error (fst (update_diagnoses \<lparr>fault = None, new_uuid = ''d2'', db_now = ''t2''\<rparr>
        (\<lambda>r. d_id r = ''d1'')
        \<lparr>du_patient_id = None, du_type = None, du_image_url = None, du_confidence = None,
         du_finding = None, du_recommendation = None, du_severity = None,
         du_report_recommendation = None, du_status_code = None,
         du_olp_score = Some (Some (3 / 2)), du_olk_score = None, du_ooml_score = None,
         du_opmd_score = None, du_knowledge = None, du_annotated_image_url = None,
         du_detections = None\<rparr> [r])) \<noteq> None) \<and>
   insert_out_of_range
     \<lparr>di_patient_id = ''patient-1'', di_type = Oral, di_image_url = ''u'',
      di_confidence = Some (3 / 2), di_finding = ''f'', di_recommendation = ''r'',
      di_severity = None, di_report_recommendation = None, di_status_code = None,
      di_olp_score = None, di_olk_score = None, di_ooml_score = None,
      di_opmd_score = None, di_knowledge = None, di_annotated_image_url = None,
      di_detections = None\<rparr> \<and>
   error (fst (insert_diagnosis \<lparr>fault = None, new_uuid = ''d2'', db_now = ''t2''\<rparr>
     \<lparr>di_patient_id = ''patient-1'', di_type = Oral, di_image_url = ''u'',
      di_confidence = Some (3 / 2), di_finding = ''f'', di_recommendation = ''r'',
      di_severity = None, di_report_recommendation = None, di_status_code = None,
      di_olp_score = None, di_olk_score = None, di_ooml_score = None,
      di_opmd_score = None, di_knowledge = None, di_annotated_image_url = None,
      di_detections = None\<rparr> [])) \<noteq> None \<and>
   snd (insert_diagnosis \<lparr>fault = None, new_uuid = ''d2'', db_now = ''t2''\<rparr>
     \<lparr>di_patient_id = ''patient-1'', di_type = Oral, di_image_url = ''u'',
      di_confidence = Some (3 / 2), di_finding = ''f'', di_recommendation = ''r'',
      di_severity = None, di_report_recommendation = None, di_status_code = None,
      di_olp_score = None, di_olk_score = None, di_ooml_score = None,
      di_opmd_score = None, di_knowledge = None, di_annotated_image_url = None,
      di_detections = None\<rparr> []) = [] \<and>
   update_out_of_range
     \<lparr>du_patient_id = None, du_type = None, du_image_url = None, du_confidence = None,
      du_finding = None, du_recommendation = None, du_severity = None,
      du_report_recommendation = None, du_status_code = None,
      du_olp_score = Some (Some (3 / 2)), du_olk_score = None, du_ooml_score = None,
      du_opmd_score = None, du_knowledge = None, du_annotated_image_url = None,
      du_detections = None\<rparr>"
proof -
  let ?E1 = "\<lparr>fault = None, new_uuid = ''d1'', db_now = ''t1''\<rparr>"
  let ?E2 = "\<lparr>fault = None, new_uuid = ''d2'', db_now = ''t2''\<rparr>"
  let ?ok = "\<lparr>di_patient_id = ''patient-1'', di_type = Oral, di_image_url = ''u'',
        di_confidence = Some (87654 / 100000), di_finding = ''f'', di_recommendation = ''r'',
        di_severity = None, di_report_recommendation = None, di_status_code = None,
        di_olp_score = Some (1 / 2), di_olk_score = None, di_ooml_score = None,
        di_opmd_score = None, di_knowledge = None, di_annotated_image_url = None,
        di_detections = None\<rparr>"
  let ?bad = "\<lparr>di_patient_id = ''patient-1'', di_type = Oral, di_image_url = ''u'',
      di_confidence = Some (3 / 2), di_finding = ''f'', di_recommendation = ''r'',
      di_severity = None, di_report_recommendation = None, di_status_code = None,
      di_olp_score = None, di_olk_score = None, di_ooml_score = None,
      di_opmd_score = None, di_knowledge = None, di_annotated_image_url = None,
      di_detections = None\<rparr>"
  let ?u = "\<lparr>du_patient_id = None, du_type = None, du_image_url = None, du_confidence = None,
      du_finding = None, du_recommendation = None, du_severity = None,
      du_report_recommendation = None, du_status_code = None,
      du_olp_score = Some (Some (3 / 2)), du_olk_score = None, du_ooml_score = None,
      du_opmd_score = None, du_knowledge = None, du_annotated_image_url = None,
      du_detections = None\<rparr>"
  let ?sel = "\<lambda>r. d_id r = ''d1''"
  let ?W = "[Insert_diagnosis ?E1 ?ok]"
  obtain r where r: "reached ?W = [r]" "d_confidence r = 8765 / 10000"
    "d_olp_score r = Some (1 / 2)" "d_id r = ''d1''"
    by (simp add: reached_def insert_diagnosis_def inserted_row_def numeric_columns_def
        decimal_5_4_def round4_examples Let_def row_checks_def confidence_check_def
        score_check_def)
  have bi: "insert_out_of_range ?bad"
    by (simp add: insert_out_of_range_def out_of_range_def round4_examples)
  have bu: "update_out_of_range ?u"
    by (simp add: update_out_of_range_def out_of_range_def payload_value_def round4_examples)
  have s: "\<exists>x\<in>set [r]. ?sel x" using r(4) by simp
  note T = diagnosis_scores_in_range [of ?W ?bad ?E2 "[]" ?u ?sel]
    diagnosis_scores_in_range [of ?W ?bad ?E2 "[r]" ?u ?sel]
  from T r have "0 \<le> d_confidence r \<and> d_confidence r \<le> 1" by simp
  moreover from T(1) bi have "error (fst (insert_diagnosis ?E2 ?bad [])) \<noteq> None"
    "snd (insert_diagnosis ?E2 ?bad []) = []" by blast+
  moreover from T(2) bu s have "snd (update_diagnoses ?E2 ?sel ?u [r]) = [r]"
    "error (fst (update_diagnoses ?E2 ?sel ?u [r])) \<noteq> None" by blast+
  ultimately show ?thesis using r bi bu by blast
qed

text \<open>
  C5 as stated fails on the rejection of every value outside \<open>[0,1]\<close>: the confidence
  \<open>1.00004\<close> is greater than 1, and the insert that writes it is accepted, the row
  being stored with the confidence rounded to \<open>1.0000\<close>.
\<close>

theorem diagnosis_scores_in_range_counterexample:
  "\<not> (0 \<le> (100004 / 100000 :: rat) \<and> (100004 / 100000 :: rat) \<le> 1) \<and>
   insert_diagnosis \<lparr>fault = None, new_uuid = ''d1'', db_now = ''t1''\<rparr>
     \<lparr>di_patient_id = ''patient-1'', di_type = Oral, di_image_url = ''u'',
      di_confidence = Some (100004 / 100000), di_finding = ''f'', di_recommendation = ''r'',
      di_severity = None, di_report_recommendation = None, di_status_code = None,
      di_olp_score = None, di_olk_score = None, di_ooml_score = None, di_opmd_score = None,
      di_knowledge = None, di_annotated_image_url = None, di_detections = None\<rparr> []
   = (\<lparr>data = Some
        \<lparr>d_id = ''d1'', d_patient_id = ''patient-1'', d_type = Oral, d_image_url = ''u'',
         d_confidence = 1, d_finding = ''f'', d_recommendation = ''r'', d_severity = None,
         d_report_recommendation = None, d_status_code = None, d_olp_score = None,
         d_olk_score = None, d_ooml_score = None, d_opmd_score = None, d_knowledge = None,
         d_annotated_image_url = None, d_detections = None, d_created_at = ''t1'',
         d_updated_at = ''t1''\<rparr>, error = None\<rparr>,
      [\<lparr>d_id = ''d1'', d_patient_id = ''patient-1'', d_type = Oral, d_image_url = ''u'',
         d_confidence = 1, d_finding = ''f'', d_recommendation = ''r'', d_severity = None,
         d_report_recommendation = None, d_status_code = None, d_olp_score = None,
         d_olk_score = None, d_ooml_score = None, d_opmd_score = None, d_knowledge = None,
         d_annotated_image_url = None, d_detections = None, d_created_at = ''t1'',
         d_updated_at = ''t1''\<rparr>])"
  by (simp add: insert_diagnosis_def inserted_row_def numeric_columns_def decimal_5_4_def
      round4_examples Let_def row_checks_def confidence_check_def score_check_def)

end
